theory Spec2Isabelle
  imports Complex_Main
begin

section \<open>Python values, errors and list indexing\<close>

text \<open>
  A Python \<open>str\<close> is modelled as the list of its code points, so that \<open>chr\<close> is
  injective on its whole domain; \<open>str\<close> embeds an ASCII literal.
\<close>

type_synonym pystr = "nat list"

definition str :: "string \<Rightarrow> pystr" where
  "str s = map of_char s"

datatype py_error = IndexError | ValueError | TypeError | AttributeError

text \<open>
  The values that the per-epoch lists hold at run time. Levels are Python floats; they
  are modelled as reals (rounding is not modelled).
\<close>

datatype pyval = PInt int | PFloat real | PStr pystr

definition ebind :: "py_error + 'a \<Rightarrow> ('a \<Rightarrow> py_error + 'b) \<Rightarrow> py_error + 'b" where
  "ebind m f = (case m of Inl e \<Rightarrow> Inl e | Inr x \<Rightarrow> f x)"

text \<open>
  The position that index \<open>i\<close> denotes in a sequence of \<open>n\<close> elements: an index
  from \<open>-n\<close> to \<open>-1\<close> counts from the end, one outside \<open>-n \<dots> n-1\<close> raises
  IndexError.
\<close>

definition py_index :: "nat \<Rightarrow> int \<Rightarrow> py_error + nat" where
  "py_index n i =
     (if 0 \<le> i \<and> i < int n then Inr (nat i)
      else if i < 0 \<and> - int n \<le> i then Inr (nat (int n + i))
      else Inl IndexError)"

text \<open>\<open>xs[i]\<close> and \<open>xs[i] = v\<close>.\<close>

definition py_get :: "'a list \<Rightarrow> int \<Rightarrow> py_error + 'a" where
  "py_get xs i = ebind (py_index (length xs) i) (\<lambda>j. Inr (xs ! j))"

definition py_set :: "'a list \<Rightarrow> int \<Rightarrow> 'a \<Rightarrow> py_error + 'a list" where
  "py_set xs i v = ebind (py_index (length xs) i) (\<lambda>j. Inr (xs[j := v]))"

text \<open>Reading an attribute that no method has assigned yet raises AttributeError.\<close>

definition attr :: "'a option \<Rightarrow> py_error + 'a" where
  "attr a = (case a of None \<Rightarrow> Inl AttributeError | Some v \<Rightarrow> Inr v)"

text \<open>\<open>chr(i)\<close>: the one-character string of code point \<open>i\<close>.\<close>

definition chr :: "int \<Rightarrow> py_error + pystr" where
  "chr i = (if 0 \<le> i \<and> i \<le> 1114111 then Inr [nat i] else Inl ValueError)"

text \<open>A list comprehension whose element expression may raise.\<close>

fun emap :: "('a \<Rightarrow> py_error + 'b) \<Rightarrow> 'a list \<Rightarrow> py_error + 'b list" where
  "emap f [] = Inr []"
| "emap f (x # xs) = ebind (f x) (\<lambda>y. ebind (emap f xs) (\<lambda>ys. Inr (y # ys)))"

text \<open>\<open>enumerate(xs)\<close>.\<close>

definition enumerate_py :: "'a list \<Rightarrow> (nat \<times> 'a) list" where
  "enumerate_py xs = zip [0..<length xs] xs"

section \<open>The header data read by the epoch code\<close>

record EpochPerDacSection =
  nDACNum :: "int list"
  nEpochType :: "int list"
  fEpochInitLevel :: "real list"
  fEpochLevelInc :: "real list"
  lEpochInitDuration :: "int list"
  lEpochDurationInc :: "int list"
  lEpochPulsePeriod :: "int list"
  lEpochPulseWidth :: "int list"

record DacSection =
  nInterEpisodeLevel :: "int list"

record ABF =
  abfFileFormat :: int
  sweepPointCount :: int
  holdingCommand :: "real list"
  dacUnits :: "pystr list"
  epochPerDacSection :: EpochPerDacSection
  dacSection :: DacSection

section \<open>The Epochs object\<close>

text \<open>
  One field per attribute of \<open>Epochs\<close>. The attributes that \<open>_initEpochVars\<close> does
  not create (\<open>_pointOffset\<close>, \<open>epochCount\<close>, \<open>epochList\<close>, \<open>dacUnits\<close>) are
  options: \<open>None\<close> until the method that assigns them has run. \<open>type\<close> holds
  Python values, since the list can come to hold strings as well as integers.
\<close>

record Epochs =
  abf :: ABF
  channel :: int
  pointStart :: "int list"
  pointEnd :: "int list"
  label :: "pystr list"
  type :: "pyval list"
  level :: "real list"
  levelDelta :: "real list"
  duration :: "int list"
  durationDelta :: "int list"
  pulsePeriod :: "int list"
  pulseWidth :: "int list"
  digitalOutputs :: "int list"
  pointOffset :: "int option"
  epochCount :: "nat option"
  epochList :: "nat list option"
  epochs_dacUnits :: "pystr option"

section \<open>Building the timeline\<close>

text \<open>\<open>self.abf = abf; self.channel = channel; self._initEpochVars()\<close>\<close>

definition initEpochVars :: "ABF \<Rightarrow> int \<Rightarrow> Epochs" where
  "initEpochVars a c =
     \<lparr>abf = a, channel = c, pointStart = [], pointEnd = [], label = [], type = [],
      level = [], levelDelta = [], duration = [], durationDelta = [], pulsePeriod = [],
      pulseWidth = [], digitalOutputs = [], pointOffset = None, epochCount = None,
      epochList = None, epochs_dacUnits = None\<rparr>"

definition warn_ABFv1 :: pystr where
  "warn_ABFv1 = str ''ABFv1 epoch synthesis not fully supported''"

text \<open>\<open>_updateForABFv1\<close>; the warning it emits is returned beside the new state.\<close>

definition updateForABFv1 :: "Epochs \<Rightarrow> py_error + (pystr list \<times> Epochs)" where
  "updateForABFv1 s =
     ebind (py_get (holdingCommand (abf s)) (channel s)) (\<lambda>h.
       Inr ([warn_ABFv1],
            s\<lparr>pointStart := pointStart s @ [0],
              pointEnd := pointEnd s @ [sweepPointCount (abf s)],
              type := type s @ [PInt 1],
              level := level s @ [h],
              levelDelta := levelDelta s @ [0],
              duration := duration s @ [sweepPointCount (abf s)],
              durationDelta := durationDelta s @ [0],
              pulsePeriod := pulsePeriod s @ [0],
              pulseWidth := pulseWidth s @ [0],
              digitalOutputs := digitalOutputs s @ [sweepPointCount (abf s)]\<rparr>))"

text \<open>
  \<open>int(n/64)\<close>: true division, then truncation towards zero (the float quotient is
  exact for every sample count below \<open>2^53\<close>).
\<close>

definition int_div64 :: "int \<Rightarrow> int" where
  "int_div64 n = (if 0 \<le> n then n div 64 else - ((- n) div 64))"

definition addPreEpoch :: "Epochs \<Rightarrow> py_error + Epochs" where
  "addPreEpoch s =
     (let off = int_div64 (sweepPointCount (abf s)) in
      ebind (py_get (holdingCommand (abf s)) (channel s)) (\<lambda>h.
        Inr (s\<lparr>pointOffset := Some off,
               pointStart := pointStart s @ [0],
               pointEnd := pointEnd s @ [off],
               type := type s @ [PInt 1],
               level := level s @ [h],
               levelDelta := levelDelta s @ [0],
               duration := duration s @ [off],
               durationDelta := durationDelta s @ [0],
               pulsePeriod := pulsePeriod s @ [0],
               pulseWidth := pulseWidth s @ [0],
               digitalOutputs := digitalOutputs s @ [off]\<rparr>)))"

text \<open>The body of the loop of \<open>_fillEpochsFromABF\<close>, for a table row \<open>i\<close> of this channel.\<close>

definition fillEpoch :: "nat \<Rightarrow> Epochs \<Rightarrow> py_error + Epochs" where
  "fillEpoch i s =
     (let epPerDac = epochPerDacSection (abf s) in
      ebind (py_get (pointStart s) (- 1)) (\<lambda>ps.
      ebind (py_get (duration s) (- 1)) (\<lambda>pd.
      ebind (py_get (nEpochType epPerDac) (int i)) (\<lambda>t.
      ebind (py_get (fEpochInitLevel epPerDac) (int i)) (\<lambda>l.
      ebind (py_get (fEpochLevelInc epPerDac) (int i)) (\<lambda>ld.
      ebind (py_get (lEpochInitDuration epPerDac) (int i)) (\<lambda>d.
      ebind (py_get (lEpochDurationInc epPerDac) (int i)) (\<lambda>dd.
      ebind (py_get (lEpochPulsePeriod epPerDac) (int i)) (\<lambda>pp.
      ebind (py_get (lEpochPulseWidth epPerDac) (int i)) (\<lambda>pw.
        Inr (s\<lparr>pointStart := pointStart s @ [ps + pd],
               type := type s @ [PInt t],
               level := level s @ [l],
               levelDelta := levelDelta s @ [ld],
               duration := duration s @ [d],
               durationDelta := durationDelta s @ [dd],
               pulsePeriod := pulsePeriod s @ [pp],
               pulseWidth := pulseWidth s @ [pw],
               pointEnd := pointEnd s @ [(ps + pd) + d]\<rparr>)))))))))))"

fun fillLoop :: "(nat \<times> int) list \<Rightarrow> Epochs \<Rightarrow> py_error + Epochs" where
  "fillLoop [] s = Inr s"
| "fillLoop ((i, dacNum) # rest) s =
     (if dacNum \<noteq> channel s then fillLoop rest s
      else ebind (fillEpoch i s) (fillLoop rest))"

definition fillEpochsFromABF :: "Epochs \<Rightarrow> py_error + Epochs" where
  "fillEpochsFromABF s = fillLoop (enumerate_py (nDACNum (epochPerDacSection (abf s)))) s"

definition addPostEpoch :: "Epochs \<Rightarrow> py_error + Epochs" where
  "addPostEpoch s =
     ebind (py_get (nInterEpisodeLevel (dacSection (abf s))) (channel s)) (\<lambda>flag.
       if flag \<noteq> 0 then
         ebind (attr (pointOffset s)) (\<lambda>off.
         ebind (py_set (pointEnd s) (- 1) (sweepPointCount (abf s) - 1 + off)) (\<lambda>pe.
           Inr (s\<lparr>pointEnd := pe\<rparr>)))
       else
         ebind (py_get (pointEnd s) (- 1)) (\<lambda>e.
         ebind (attr (pointOffset s)) (\<lambda>off.
         ebind (py_get (level s) (- 1)) (\<lambda>l.
           Inr (s\<lparr>pointStart := pointStart s @ [e],
                  pointEnd := pointEnd s @ [sweepPointCount (abf s) + off],
                  type := type s @ [PInt 1],
                  level := level s @ [l],
                  levelDelta := levelDelta s @ [0],
                  duration := duration s @ [0],
                  durationDelta := durationDelta s @ [0],
                  pulsePeriod := pulsePeriod s @ [0],
                  pulseWidth := pulseWidth s @ [0]\<rparr>)))))"

definition createEpochLabels :: "Epochs \<Rightarrow> py_error + Epochs" where
  "createEpochLabels s =
     ebind (emap (\<lambda>x. chr (int x + 64)) [0..<length (type s)]) (\<lambda>l0.
     ebind (py_set l0 0 (str ''pre'')) (\<lambda>l1.
     ebind (py_get (duration s) (- 1)) (\<lambda>d.
       if d = 0 then ebind (py_set l1 (- 1) (str ''post'')) (\<lambda>l2. Inr (s\<lparr>label := l2\<rparr>))
       else Inr (s\<lparr>label := l1\<rparr>))))"

definition updateEpochDetails :: "Epochs \<Rightarrow> py_error + Epochs" where
  "updateEpochDetails s =
     ebind (py_get (dacUnits (abf s)) (channel s)) (\<lambda>u.
       Inr (s\<lparr>epochCount := Some (length (type s)),
              epochList := Some [0..<length (type s)],
              epochs_dacUnits := Some u\<rparr>))"

text \<open>\<open>Epochs.__init__\<close>: the constructed object and the warnings emitted on the way.\<close>

definition Epochs_init :: "ABF \<Rightarrow> int \<Rightarrow> py_error + (pystr list \<times> Epochs)" where
  "Epochs_init a c =
     (let s0 = initEpochVars a c in
      ebind (if abfFileFormat a = 1 then updateForABFv1 s0
             else if abfFileFormat a = 2 then
               ebind (addPreEpoch s0) (\<lambda>s1.
               ebind (fillEpochsFromABF s1) (\<lambda>s2.
               ebind (addPostEpoch s2) (\<lambda>s3. Inr ([], s3))))
             else Inr ([], s0)) (\<lambda>(w, s).
      ebind (createEpochLabels s) (\<lambda>s4.
      ebind (updateEpochDetails s4) (\<lambda>s5. Inr (w, s5)))))"

section \<open>The waveform synthesizer\<close>

text \<open>\<open>value == k\<close> for an integer literal \<open>k\<close>: a string never equals a number.\<close>

definition py_eq_int :: "pyval \<Rightarrow> int \<Rightarrow> bool" where
  "py_eq_int v k = (case v of PInt i \<Rightarrow> i = k | PFloat r \<Rightarrow> r = of_int k | PStr _ \<Rightarrow> False)"

text \<open>\<open>np.full(n, v)\<close>: a negative length raises ValueError.\<close>

definition np_full :: "int \<Rightarrow> real \<Rightarrow> py_error + real list" where
  "np_full n v = (if n < 0 then Inl ValueError else Inr (replicate (nat n) v))"

text \<open>The bound of a slice of step 1 on a sequence of length \<open>n\<close> (\<open>slice.indices\<close>).\<close>

definition slice_index :: "int \<Rightarrow> int \<Rightarrow> int" where
  "slice_index n i = (if i < 0 then max 0 (i + n) else min i n)"

text \<open>
  \<open>xs[i1:i2] = chunk\<close> on one-dimensional arrays: the chunk must have the length of
  the slice, or length 1 (it is then broadcast); any other length raises ValueError.
\<close>

definition slice_assign :: "real list \<Rightarrow> int \<Rightarrow> int \<Rightarrow> real list \<Rightarrow> py_error + real list" where
  "slice_assign xs i1 i2 chunk =
     (let n = int (length xs); a = nat (slice_index n i1); b = nat (slice_index n i2);
          m = b - a
      in if length chunk = m then Inr (take a xs @ chunk @ drop (a + m) xs)
         else if length chunk = 1 then Inr (take a xs @ replicate m (hd chunk) @ drop (a + m) xs)
         else Inl ValueError)"

definition warn_short :: pystr where
  "warn_short = str ''sweep length is shorter than expected.''"

text \<open>
  One iteration of the loop of \<open>stimulusWaveform\<close> on epoch \<open>e\<close>, with the warnings
  emitted so far and the array. \<open>np.empty\<close> followed by \<open>fill\<close> is \<open>np_full\<close>; the
  two branches on the epoch type fill the chunk alike.
\<close>

definition stimulusEpoch ::
  "Epochs \<Rightarrow> int \<Rightarrow> nat \<Rightarrow> pystr list \<times> real list \<Rightarrow> py_error + (pystr list \<times> real list)" where
  "stimulusEpoch s sweepNumber e acc =
     (case acc of (w, sweepC) \<Rightarrow>
      ebind (py_get (type s) (int e)) (\<lambda>t.
        if py_eq_int t 0 then Inr (w, sweepC)
        else
          ebind (py_get (level s) (int e)) (\<lambda>l.
          ebind (py_get (levelDelta s) (int e)) (\<lambda>ld.
          let sweepLevel = l + ld * of_int sweepNumber in
          ebind (py_get (pointStart s) (int e)) (\<lambda>i1.
          ebind (py_get (pointEnd s) (int e)) (\<lambda>i2.
          let short = (i2 > int (length sweepC));
              i2' = (if short then int (length sweepC) else i2);
              w' = (if short then w @ [warn_short] else w) in
          ebind (np_full (i2' - i1) sweepLevel) (\<lambda>empty.
          let chunk = (if py_eq_int t 1 then empty else empty) in
          ebind (slice_assign sweepC i1 i2' chunk) (\<lambda>sweepC'.
            Inr (w', sweepC')))))))))"

fun stimulusLoop ::
  "Epochs \<Rightarrow> int \<Rightarrow> nat list \<Rightarrow> pystr list \<times> real list \<Rightarrow> py_error + (pystr list \<times> real list)" where
  "stimulusLoop s sweepNumber [] acc = Inr acc"
| "stimulusLoop s sweepNumber (e # es) acc =
     ebind (stimulusEpoch s sweepNumber e acc) (stimulusLoop s sweepNumber es)"

definition stimulusWaveform :: "Epochs \<Rightarrow> int \<Rightarrow> py_error + (pystr list \<times> real list)" where
  "stimulusWaveform s sweepNumber =
     ebind (py_get (holdingCommand (abf s)) (channel s)) (\<lambda>h.
     ebind (np_full (sweepPointCount (abf s)) h) (\<lambda>sweepC.
     ebind (attr (epochList s)) (\<lambda>es.
       stimulusLoop s sweepNumber es ([], sweepC))))"

section \<open>The text block\<close>

function digits_of :: "nat \<Rightarrow> pystr" where
  "digits_of n = (if n < 10 then [48 + n] else digits_of (n div 10) @ [48 + n mod 10])"
  by pat_completeness auto
termination
  by (relation "measure id") auto

definition fmt_int :: "int \<Rightarrow> pystr" where
  "fmt_int i = (if i < 0 then 45 # digits_of (nat (- i)) else digits_of (nat i))"

text \<open>\<open>int(r)\<close> of a float: truncation towards zero.\<close>

definition trunc :: "real \<Rightarrow> int" where
  "trunc r = (if 0 \<le> r then \<lfloor>r\<rfloor> else \<lceil>r\<rceil>)"

text \<open>\<open>"%d" % v\<close>: a number is required.\<close>

definition fmt_d :: "pyval \<Rightarrow> py_error + pystr" where
  "fmt_d v = (case v of PInt i \<Rightarrow> Inr (fmt_int i)
                      | PFloat r \<Rightarrow> Inr (fmt_int (trunc r))
                      | PStr _ \<Rightarrow> Inl TypeError)"

definition rjust :: "nat \<Rightarrow> pystr \<Rightarrow> pystr" where
  "rjust w t = replicate (w - length t) 32 @ t"

text \<open>
  The loop of \<open>_txtFmt\<close> that runs when the label is \<open>"Type"\<close>. It assigns into the
  list it was given, element by element, so when an element raises, the elements before
  it have already been replaced. The result is the warnings, the list as the loop leaves
  it, and the error raised, if any.
\<close>

fun typeNames :: "pyval list \<Rightarrow> pystr list \<times> pyval list \<times> py_error option" where
  "typeNames [] = ([], [], None)"
| "typeNames (v # vs) =
     (if py_eq_int v 0 then
        (case typeNames vs of (w, vs', r) \<Rightarrow> (w, PStr (str ''Off'') # vs', r))
      else if py_eq_int v 1 then
        (case typeNames vs of (w, vs', r) \<Rightarrow> (w, PStr (str ''Step'') # vs', r))
      else if py_eq_int v 2 then
        (case typeNames vs of (w, vs', r) \<Rightarrow> (w, PStr (str ''Ramp'') # vs', r))
      else
        (case fmt_d v of
           Inl err \<Rightarrow> ([], v # vs, Some err)
         | Inr d \<Rightarrow>
             (case typeNames vs of (w, vs', r) \<Rightarrow>
                ((str ''UNSUPPORTED EPOCH TYPE: '' @ d) # w, PStr (d @ str ''?'') # vs', r))))"

text \<open>The cell of one value: a string as it is, a number through \<open>"%d"\<close>.\<close>

definition cell :: "pyval \<Rightarrow> pystr" where
  "cell v = (case v of PStr t \<Rightarrow> t | PInt i \<Rightarrow> fmt_int i | PFloat r \<Rightarrow> fmt_int (trunc r))"

definition txtLine :: "pystr \<Rightarrow> pyval list \<Rightarrow> pystr" where
  "txtLine lbl vals = foldl (\<lambda>line val. line @ rjust 7 (cell val)) (rjust 25 lbl) vals @ [10]"

text \<open>
  \<open>_txtFmt(label, values)\<close>: the warnings, the list \<open>values\<close> as the call leaves it
  (the caller's own list object), and the line or the error.
\<close>

definition txtFmt :: "pystr \<Rightarrow> pyval list \<Rightarrow> pystr list \<times> pyval list \<times> (py_error + pystr)" where
  "txtFmt lbl vals =
     (if lbl = str ''Type'' then
        (case typeNames vals of
           (w, vals', Some err) \<Rightarrow> (w, vals', Inl err)
         | (w, vals', None) \<Rightarrow> (w, vals', Inr (txtLine lbl vals')))
      else ([], vals, Inr (txtLine lbl vals)))"

text \<open>
  The property \<open>text\<close>. \<open>_txtFmt\<close> receives the object's own lists, so the list it
  leaves behind for \<open>"Type"\<close> is \<open>self.type\<close> from then on; the other labels never
  equal \<open>"Type"\<close> and their lists are left as they were. The result is the warnings, the
  object after the call, and the text or the error.
\<close>

definition text_block :: "Epochs \<Rightarrow> pystr list \<times> Epochs \<times> (py_error + pystr)" where
  "text_block s =
     (case txtFmt (str ''Ch'' @ fmt_int (channel s) @ str '' EPOCH'') (map PStr (label s)) of
        (w1, _, r1) \<Rightarrow>
     (case txtFmt (str ''Type'') (type s) of
        (w2, ty, r2) \<Rightarrow>
     (let s' = s\<lparr>type := ty\<rparr> in
      (w1 @ w2, s',
       ebind r1 (\<lambda>o1.
       ebind r2 (\<lambda>o2.
       ebind (attr (epochs_dacUnits s')) (\<lambda>u.
       ebind (snd (snd (txtFmt (str ''First Level ('' @ u @ str '')'') (map PFloat (level s'))))) (\<lambda>o3.
       ebind (snd (snd (txtFmt (str ''Delta Level ('' @ u @ str '')'') (map PFloat (levelDelta s'))))) (\<lambda>o4.
       ebind (snd (snd (txtFmt (str ''First Duration (samples)'') (map PInt (duration s'))))) (\<lambda>o5.
       ebind (snd (snd (txtFmt (str ''Delta Duration (samples)'') (map PInt (durationDelta s'))))) (\<lambda>o6.
       ebind (snd (snd (txtFmt (str ''Train Period (samples)'') (map PInt (pulsePeriod s'))))) (\<lambda>o7.
       ebind (snd (snd (txtFmt (str ''Pulse Width (samples)'') (map PInt (pulseWidth s'))))) (\<lambda>o8.
       ebind (snd (snd (txtFmt (str ''Epoch Start (samples)'') (map PInt (pointStart s'))))) (\<lambda>o9.
       ebind (snd (snd (txtFmt (str ''Epoch End (samples)'') (map PInt (pointEnd s'))))) (\<lambda>o10.
         Inr ([10] @ o1 @ o2 @ o3 @ o4 @ o5 @ o6 @ o7 @ o8 @ o9 @ o10 @ [10]))))))))))))))))"

section \<open>Functions used to state the properties\<close>

text \<open>
  The bounds of a chain of epochs of durations \<open>ds\<close> that begins at sample \<open>b\<close>:
  each epoch starts where the one before it ends.
\<close>

fun chain_starts :: "int \<Rightarrow> int list \<Rightarrow> int list" where
  "chain_starts b [] = []"
| "chain_starts b (d # ds) = b # chain_starts (b + d) ds"

fun chain_ends :: "int \<Rightarrow> int list \<Rightarrow> int list" where
  "chain_ends b [] = []"
| "chain_ends b (d # ds) = (b + d) # chain_ends (b + d) ds"

text \<open>The rows of the epoch table that belong to channel \<open>c\<close>, in table order.\<close>

definition chan_rows :: "int \<Rightarrow> (nat \<times> int) list \<Rightarrow> nat list" where
  "chan_rows c rows = map fst (filter (\<lambda>(i, dacNum). dacNum = c) rows)"

definition real_rows :: "ABF \<Rightarrow> int \<Rightarrow> nat list" where
  "real_rows a c = chan_rows c (enumerate_py (nDACNum (epochPerDacSection a)))"

definition real_durations :: "ABF \<Rightarrow> int \<Rightarrow> int list" where
  "real_durations a c = map (\<lambda>i. lEpochInitDuration (epochPerDacSection a) ! i) (real_rows a c)"

text \<open>
  The object after \<open>_addPreEpoch\<close> and \<open>_fillEpochsFromABF\<close>, for holding level \<open>h\<close>:
  the pre-epoch, then one epoch per table row of the channel.
\<close>

definition filled :: "ABF \<Rightarrow> int \<Rightarrow> real \<Rightarrow> Epochs" where
  "filled a c h =
     (let off = int_div64 (sweepPointCount a); ep = epochPerDacSection a; rows = real_rows a c in
      \<lparr>abf = a, channel = c,
       pointStart = 0 # chain_starts off (real_durations a c),
       pointEnd = off # chain_ends off (real_durations a c),
       label = [],
       type = PInt 1 # map (\<lambda>i. PInt (nEpochType ep ! i)) rows,
       level = h # map (\<lambda>i. fEpochInitLevel ep ! i) rows,
       levelDelta = 0 # map (\<lambda>i. fEpochLevelInc ep ! i) rows,
       duration = off # real_durations a c,
       durationDelta = 0 # map (\<lambda>i. lEpochDurationInc ep ! i) rows,
       pulsePeriod = 0 # map (\<lambda>i. lEpochPulsePeriod ep ! i) rows,
       pulseWidth = 0 # map (\<lambda>i. lEpochPulseWidth ep ! i) rows,
       digitalOutputs = [off], pointOffset = Some off, epochCount = None,
       epochList = None, epochs_dacUnits = None\<rparr>)"

text \<open>The labels of \<open>n\<close> epochs of which the last has base duration \<open>d\<close>.\<close>

definition epoch_labels :: "nat \<Rightarrow> int \<Rightarrow> pystr list" where
  "epoch_labels n d =
     (let l1 = (map (\<lambda>x. [x + 64]) [0..<n])[0 := str ''pre'']
      in if d = 0 then l1[n - 1 := str ''post''] else l1)"

text \<open>
  A header used for the concrete instances below: sweeps of \<open>n\<close> samples, one channel
  with holding level 0, a three-row epoch table of which rows 0 and 2 belong to channel 0
  (an Off epoch and a Ramp epoch with a level increment), and the given sustain flag.
\<close>

definition example_abf :: "int \<Rightarrow> int \<Rightarrow> int \<Rightarrow> ABF" where
  "example_abf fmt n flag =
     \<lparr>abfFileFormat = fmt, sweepPointCount = n, holdingCommand = [0], dacUnits = [str ''pA''],
      epochPerDacSection =
        \<lparr>nDACNum = [0, 1, 0], nEpochType = [0, 1, 2], fEpochInitLevel = [5, 6, - 70],
         fEpochLevelInc = [0, 0, 5], lEpochInitDuration = [10, 10, 20],
         lEpochDurationInc = [0, 0, 0], lEpochPulsePeriod = [0, 0, 0],
         lEpochPulseWidth = [0, 0, 0]\<rparr>,
      dacSection = \<lparr>nInterEpisodeLevel = [flag]\<rparr>\<rparr>"

text \<open>The timeline built from \<open>example_abf 2 128 0\<close> for channel 0.\<close>

definition example_timeline :: Epochs where
  "example_timeline =
     \<lparr>abf = example_abf 2 128 0,
      channel = 0, pointStart = [0, 2, 12, 32], pointEnd = [2, 12, 32, 130],
      label = [str ''pre'', str ''A'', str ''B'', str ''post''],
      type = [PInt 1, PInt 0, PInt 2, PInt 1], level = [0, 5, - 70, - 70],
      levelDelta = [0, 0, 5, 0], duration = [2, 10, 20, 0],
      durationDelta = [0, 0, 0, 0], pulsePeriod = [0, 0, 0, 0],
      pulseWidth = [0, 0, 0, 0], digitalOutputs = [2], pointOffset = Some 2,
      epochCount = Some 4, epochList = Some [0, 1, 2, 3],
      epochs_dacUnits = Some (str ''pA'')\<rparr>"

text \<open>The same with the sustain flag set: no post-epoch, the last epoch extended.\<close>

definition example_sustained :: Epochs where
  "example_sustained =
     \<lparr>abf = example_abf 2 128 1,
      channel = 0, pointStart = [0, 2, 12], pointEnd = [2, 12, 129],
      label = [str ''pre'', str ''A'', str ''B''],
      type = [PInt 1, PInt 0, PInt 2], level = [0, 5, - 70],
      levelDelta = [0, 0, 5], duration = [2, 10, 20],
      durationDelta = [0, 0, 0], pulsePeriod = [0, 0, 0],
      pulseWidth = [0, 0, 0], digitalOutputs = [2], pointOffset = Some 2,
      epochCount = Some 3, epochList = Some [0, 1, 2],
      epochs_dacUnits = Some (str ''pA'')\<rparr>"

text \<open>
  The timeline that construction returns for a segmented header, given the holding level
  \<open>h\<close>, the sustain flag and the unit \<open>u\<close> of the channel.
\<close>

definition segmented_timeline :: "ABF \<Rightarrow> int \<Rightarrow> real \<Rightarrow> int \<Rightarrow> pystr \<Rightarrow> Epochs" where
  "segmented_timeline a c h flag u =
     (if flag \<noteq> 0 then
        (filled a c h)
            \<lparr>pointEnd := (pointEnd (filled a c h))
                          [length (real_rows a c) := sweepPointCount a - 1 + int_div64 (sweepPointCount a)],
             label := epoch_labels (Suc (length (real_rows a c))) (last (duration (filled a c h))),
             epochCount := Some (Suc (length (real_rows a c))),
             epochList := Some [0..<Suc (length (real_rows a c))],
             epochs_dacUnits := Some u\<rparr>
      else
        (filled a c h)
            \<lparr>pointStart := pointStart (filled a c h) @ [last (pointEnd (filled a c h))],
             pointEnd := pointEnd (filled a c h)
                          @ [sweepPointCount a + int_div64 (sweepPointCount a)],
             type := type (filled a c h) @ [PInt 1],
             level := level (filled a c h) @ [last (level (filled a c h))],
             levelDelta := levelDelta (filled a c h) @ [0],
             duration := duration (filled a c h) @ [0],
             durationDelta := durationDelta (filled a c h) @ [0],
             pulsePeriod := pulsePeriod (filled a c h) @ [0],
             pulseWidth := pulseWidth (filled a c h) @ [0],
             label := epoch_labels (Suc (Suc (length (real_rows a c)))) 0,
             epochCount := Some (Suc (Suc (length (real_rows a c)))),
             epochList := Some [0..<Suc (Suc (length (real_rows a c)))],
             epochs_dacUnits := Some u\<rparr>)"

text \<open>
  The two outcomes of post-epoch synthesis, as relations between the object \<open>s\<close> before
  \<open>_addPostEpoch\<close> and the finished timeline \<open>t\<close>, for pre-epoch offset \<open>off\<close>.
  Sustained: no epoch is added and only the last end bound changes. Reverted: one
  zero-duration Step epoch is added after the last one.
\<close>

definition sustain_extends_last :: "int \<Rightarrow> Epochs \<Rightarrow> Epochs \<Rightarrow> bool" where
  "sustain_extends_last off s t \<longleftrightarrow>
     epochCount t = Some (length (type s)) \<and>
     pointStart t = pointStart s \<and>
     pointEnd t = butlast (pointEnd s) @ [sweepPointCount (abf s) - 1 + off] \<and>
     type t = type s \<and> level t = level s \<and> levelDelta t = levelDelta s \<and>
     duration t = duration s \<and> durationDelta t = durationDelta s \<and>
     pulsePeriod t = pulsePeriod s \<and> pulseWidth t = pulseWidth s"

definition post_epoch_appended :: "int \<Rightarrow> Epochs \<Rightarrow> Epochs \<Rightarrow> bool" where
  "post_epoch_appended off s t \<longleftrightarrow>
     epochCount t = Some (Suc (length (type s))) \<and>
     pointStart t = pointStart s @ [last (pointEnd s)] \<and>
     pointEnd t = pointEnd s @ [sweepPointCount (abf s) + off] \<and>
     type t = type s @ [PInt 1] \<and>
     level t = level s @ [last (level s)] \<and>
     levelDelta t = levelDelta s @ [0] \<and>
     duration t = duration s @ [0] \<and>
     durationDelta t = durationDelta s @ [0] \<and>
     pulsePeriod t = pulsePeriod s @ [0] \<and>
     pulseWidth t = pulseWidth s @ [0]"

text \<open>A header with an empty epoch table: sweeps of \<open>n\<close> samples, one channel.\<close>

definition bare_abf :: "int \<Rightarrow> int \<Rightarrow> int \<Rightarrow> ABF" where
  "bare_abf fmt n flag =
     \<lparr>abfFileFormat = fmt, sweepPointCount = n, holdingCommand = [- 70],
      dacUnits = [str ''mV''],
      epochPerDacSection =
        \<lparr>nDACNum = [], nEpochType = [], fEpochInitLevel = [], fEpochLevelInc = [],
         lEpochInitDuration = [], lEpochDurationInc = [], lEpochPulsePeriod = [],
         lEpochPulseWidth = []\<rparr>,
      dacSection = \<lparr>nInterEpisodeLevel = [flag]\<rparr>\<rparr>"

text \<open>The timeline built from \<open>bare_abf 2 n 1\<close>: the pre-epoch alone, its end rewritten.\<close>

definition bare_sustained :: "int \<Rightarrow> Epochs" where
  "bare_sustained n =
     \<lparr>abf = bare_abf 2 n 1, channel = 0, pointStart = [0],
      pointEnd = [n - 1 + int_div64 n],
      label = [if int_div64 n = 0 then str ''post'' else str ''pre''],
      type = [PInt 1], level = [- 70], levelDelta = [0], duration = [int_div64 n],
      durationDelta = [0], pulsePeriod = [0], pulseWidth = [0],
      digitalOutputs = [int_div64 n], pointOffset = Some (int_div64 n),
      epochCount = Some 1, epochList = Some [0], epochs_dacUnits = Some (str ''mV'')\<rparr>"

text \<open>
  Epoch \<open>i\<close> is the synthetic pre-epoch, as \<open>_addPreEpoch\<close> writes it: a Step epoch
  from sample 0 at the holding level, of duration \<open>_pointOffset\<close>, with every delta zero.
\<close>

definition is_pre_epoch :: "Epochs \<Rightarrow> nat \<Rightarrow> bool" where
  "is_pre_epoch t i \<longleftrightarrow>
     pointStart t ! i = 0 \<and> type t ! i = PInt 1 \<and>
     py_get (holdingCommand (abf t)) (channel t) = Inr (level t ! i) \<and>
     levelDelta t ! i = 0 \<and> duration t ! i = int_div64 (sweepPointCount (abf t)) \<and>
     pointOffset t = Some (duration t ! i) \<and>
     durationDelta t ! i = 0 \<and> pulsePeriod t ! i = 0 \<and> pulseWidth t ! i = 0"

text \<open>
  Epoch \<open>i\<close> is the synthetic post-epoch, as the else branch of \<open>_addPostEpoch\<close>
  writes it: a Step epoch of duration zero that follows another epoch, starts at that
  epoch's end, ends at \<open>sweepPointCount + _pointOffset\<close> and repeats its level.
\<close>

definition is_post_epoch :: "Epochs \<Rightarrow> nat \<Rightarrow> bool" where
  "is_post_epoch t i \<longleftrightarrow>
     0 < i \<and> pointStart t ! i = pointEnd t ! (i - 1) \<and>
     pointOffset t = Some (pointEnd t ! i - sweepPointCount (abf t)) \<and>
     type t ! i = PInt 1 \<and> level t ! i = level t ! (i - 1) \<and>
     levelDelta t ! i = 0 \<and> duration t ! i = 0 \<and>
     durationDelta t ! i = 0 \<and> pulsePeriod t ! i = 0 \<and> pulseWidth t ! i = 0"

text \<open>The timeline holds a pre-epoch and, as another epoch, a post-epoch.\<close>

definition pre_and_post_present :: "Epochs \<Rightarrow> bool" where
  "pre_and_post_present t \<longleftrightarrow>
     2 \<le> length (type t) \<and> is_pre_epoch t 0 \<and> is_post_epoch t (length (type t) - 1)"

text \<open>
  A header whose declared epoch outlasts the sweep: sweeps of 100 samples, one Step epoch
  of 200 samples at level 10 for channel 0, sustain flag clear.
\<close>

definition overlong_abf :: ABF where
  "overlong_abf =
     \<lparr>abfFileFormat = 2, sweepPointCount = 100, holdingCommand = [0], dacUnits = [str ''pA''],
      epochPerDacSection =
        \<lparr>nDACNum = [0], nEpochType = [1], fEpochInitLevel = [10], fEpochLevelInc = [0],
         lEpochInitDuration = [200], lEpochDurationInc = [0], lEpochPulsePeriod = [0],
         lEpochPulseWidth = [0]\<rparr>,
      dacSection = \<lparr>nInterEpisodeLevel = [0]\<rparr>\<rparr>"

text \<open>The timeline built from \<open>overlong_abf\<close> for channel 0.\<close>

definition overlong_timeline :: Epochs where
  "overlong_timeline =
     \<lparr>abf = overlong_abf, channel = 0, pointStart = [0, 1, 201], pointEnd = [1, 201, 101],
      label = [str ''pre'', str ''A'', str ''post''],
      type = [PInt 1, PInt 1, PInt 1], level = [0, 10, 10], levelDelta = [0, 0, 0],
      duration = [1, 200, 0], durationDelta = [0, 0, 0], pulsePeriod = [0, 0, 0],
      pulseWidth = [0, 0, 0], digitalOutputs = [1], pointOffset = Some 1,
      epochCount = Some 3, epochList = Some [0, 1, 2], epochs_dacUnits = Some (str ''pA'')\<rparr>"

text \<open>The bound invariant: every epoch has \<open>0 \<le> startSample \<le> endSample\<close>.\<close>

definition epoch_bounds_ok :: "Epochs \<Rightarrow> bool" where
  "epoch_bounds_ok t \<longleftrightarrow> list_all2 (\<lambda>s e. 0 \<le> s \<and> s \<le> e) (pointStart t) (pointEnd t)"

text \<open>
  The declared epochs of channel \<open>c\<close> fit the sweep: their base durations are not
  negative and, when the sustain flag is clear, they sum to at most the sweep length (the
  post-epoch starts where they end). When the flag is set the last declared epoch is made
  to end at \<open>sweepPointCount - 1 + _pointOffset\<close> whatever its duration, so only the
  durations before it count: they sum to less than the sweep length.
\<close>

definition epochs_fit_sweep :: "ABF \<Rightarrow> int \<Rightarrow> bool" where
  "epochs_fit_sweep a c \<longleftrightarrow>
     list_all (\<lambda>d. 0 \<le> d) (real_durations a c) \<and>
     (case py_get (nInterEpisodeLevel (dacSection a)) c of
        Inl _ \<Rightarrow> False
      | Inr flag \<Rightarrow>
          if flag \<noteq> 0 then sum_list (butlast (real_durations a c)) + 1 \<le> sweepPointCount a
          else sum_list (real_durations a c) \<le> sweepPointCount a)"

text \<open>
  A recording shorter than its protocol: sweeps of 100 samples, three Step epochs of 50,
  100 and 100 samples for channel 0, sustain flag clear.
\<close>

definition truncated_abf :: ABF where
  "truncated_abf =
     \<lparr>abfFileFormat = 2, sweepPointCount = 100, holdingCommand = [0], dacUnits = [str ''pA''],
      epochPerDacSection =
        \<lparr>nDACNum = [0, 0, 0], nEpochType = [1, 1, 1], fEpochInitLevel = [10, 20, 30],
         fEpochLevelInc = [0, 0, 0], lEpochInitDuration = [50, 100, 100],
         lEpochDurationInc = [0, 0, 0], lEpochPulsePeriod = [0, 0, 0],
         lEpochPulseWidth = [0, 0, 0]\<rparr>,
      dacSection = \<lparr>nInterEpisodeLevel = [0]\<rparr>\<rparr>"

text \<open>The timeline built from \<open>truncated_abf\<close> for channel 0.\<close>

definition truncated_timeline :: Epochs where
  "truncated_timeline =
     \<lparr>abf = truncated_abf, channel = 0, pointStart = [0, 1, 51, 151, 251],
      pointEnd = [1, 51, 151, 251, 101],
      label = [str ''pre'', str ''A'', str ''B'', str ''C'', str ''post''],
      type = [PInt 1, PInt 1, PInt 1, PInt 1, PInt 1], level = [0, 10, 20, 30, 30],
      levelDelta = [0, 0, 0, 0, 0], duration = [1, 50, 100, 100, 0],
      durationDelta = [0, 0, 0, 0, 0], pulsePeriod = [0, 0, 0, 0, 0],
      pulseWidth = [0, 0, 0, 0, 0], digitalOutputs = [1], pointOffset = Some 1,
      epochCount = Some 5, epochList = Some [0, 1, 2, 3, 4],
      epochs_dacUnits = Some (str ''pA'')\<rparr>"

text \<open>The first three epochs of \<open>truncated_timeline\<close> alone.\<close>

definition truncated_prefix :: Epochs where
  "truncated_prefix = truncated_timeline\<lparr>epochCount := Some 3, epochList := Some [0, 1, 2]\<rparr>"

text \<open>\<open>example_timeline\<close> as a call of \<open>text\<close> leaves it.\<close>

definition example_formatted :: Epochs where
  "example_formatted =
     example_timeline\<lparr>type := [PStr (str ''Step''), PStr (str ''Off''), PStr (str ''Ramp''),
                               PStr (str ''Step'')]\<rparr>"

text \<open>
  A header whose declared epoch is as long as the sweep: sweeps of 128 samples, one Step
  epoch of 128 samples at level 10 for channel 0, sustain flag clear.
\<close>

definition full_abf :: ABF where
  "full_abf =
     \<lparr>abfFileFormat = 2, sweepPointCount = 128, holdingCommand = [0], dacUnits = [str ''pA''],
      epochPerDacSection =
        \<lparr>nDACNum = [0], nEpochType = [1], fEpochInitLevel = [10], fEpochLevelInc = [0],
         lEpochInitDuration = [128], lEpochDurationInc = [0], lEpochPulsePeriod = [0],
         lEpochPulseWidth = [0]\<rparr>,
      dacSection = \<lparr>nInterEpisodeLevel = [0]\<rparr>\<rparr>"

text \<open>The timeline built from \<open>full_abf\<close> for channel 0.\<close>

definition full_timeline :: Epochs where
  "full_timeline =
     \<lparr>abf = full_abf, channel = 0, pointStart = [0, 2, 130], pointEnd = [2, 130, 130],
      label = [str ''pre'', str ''A'', str ''post''],
      type = [PInt 1, PInt 1, PInt 1], level = [0, 10, 10], levelDelta = [0, 0, 0],
      duration = [2, 128, 0], durationDelta = [0, 0, 0], pulsePeriod = [0, 0, 0],
      pulseWidth = [0, 0, 0], digitalOutputs = [2], pointOffset = Some 2,
      epochCount = Some 3, epochList = Some [0, 1, 2], epochs_dacUnits = Some (str ''pA'')\<rparr>"

text \<open>
  \<open>full_abf\<close> and \<open>truncated_abf\<close> with the sustain flag set, and the timelines built
  from them for channel 0: the last declared epoch is extended or cut to end at sample
  \<open>sweepPointCount - 1 + _pointOffset\<close>.
\<close>

definition full_sustained_abf :: ABF where
  "full_sustained_abf = full_abf\<lparr>dacSection := \<lparr>nInterEpisodeLevel = [1]\<rparr>\<rparr>"

definition full_sustained :: Epochs where
  "full_sustained =
     \<lparr>abf = full_sustained_abf, channel = 0, pointStart = [0, 2], pointEnd = [2, 129],
      label = [str ''pre'', str ''A''],
      type = [PInt 1, PInt 1], level = [0, 10], levelDelta = [0, 0],
      duration = [2, 128], durationDelta = [0, 0], pulsePeriod = [0, 0],
      pulseWidth = [0, 0], digitalOutputs = [2], pointOffset = Some 2,
      epochCount = Some 2, epochList = Some [0, 1], epochs_dacUnits = Some (str ''pA'')\<rparr>"

definition truncated_sustained_abf :: ABF where
  "truncated_sustained_abf = truncated_abf\<lparr>dacSection := \<lparr>nInterEpisodeLevel = [1]\<rparr>\<rparr>"

definition truncated_sustained :: Epochs where
  "truncated_sustained =
     \<lparr>abf = truncated_sustained_abf, channel = 0, pointStart = [0, 1, 51, 151],
      pointEnd = [1, 51, 151, 100],
      label = [str ''pre'', str ''A'', str ''B'', str ''C''],
      type = [PInt 1, PInt 1, PInt 1, PInt 1], level = [0, 10, 20, 30],
      levelDelta = [0, 0, 0, 0], duration = [1, 50, 100, 100],
      durationDelta = [0, 0, 0, 0], pulsePeriod = [0, 0, 0, 0],
      pulseWidth = [0, 0, 0, 0], digitalOutputs = [1], pointOffset = Some 1,
      epochCount = Some 4, epochList = Some [0, 1, 2, 3],
      epochs_dacUnits = Some (str ''pA'')\<rparr>"

text \<open>
  What the synthesizer is to compute, sample by sample. Epoch \<open>e\<close> is on when its type
  is not 0 (Off); it covers sample \<open>j\<close> of a sweep of \<open>n\<close> samples when it is on and
  \<open>j\<close> lies between its start and its end clamped to \<open>n\<close>; its level at sweep number
  \<open>k\<close> is \<open>level + levelDelta * k\<close>. Sample \<open>j\<close> shall hold the level of the last epoch
  of \<open>es\<close> that covers it, and \<open>h\<close> when none does.
\<close>

definition epoch_on :: "Epochs \<Rightarrow> nat \<Rightarrow> bool" where
  "epoch_on s e \<longleftrightarrow> \<not> py_eq_int (type s ! e) 0"

definition epoch_level :: "Epochs \<Rightarrow> int \<Rightarrow> nat \<Rightarrow> real" where
  "epoch_level s k e = level s ! e + levelDelta s ! e * of_int k"

definition covers :: "Epochs \<Rightarrow> nat \<Rightarrow> nat \<Rightarrow> nat \<Rightarrow> bool" where
  "covers s n e j \<longleftrightarrow>
     epoch_on s e \<and> pointStart s ! e \<le> int j \<and> int j < min (pointEnd s ! e) (int n)"

definition sample_value :: "Epochs \<Rightarrow> int \<Rightarrow> nat \<Rightarrow> nat list \<Rightarrow> real \<Rightarrow> nat \<Rightarrow> real" where
  "sample_value s k n es h j =
     (case rev (filter (\<lambda>e. covers s n e j) es) of [] \<Rightarrow> h | e # _ \<Rightarrow> epoch_level s k e)"

text \<open>
  Epoch \<open>e\<close> can be written into a sweep of \<open>n\<close> samples: the epoch exists and, if it
  is on, it starts at a sample from 0 to its clamped end.
\<close>

definition fillable :: "Epochs \<Rightarrow> nat \<Rightarrow> nat \<Rightarrow> bool" where
  "fillable s n e \<longleftrightarrow>
     e < length (type s) \<and>
     (epoch_on s e \<longrightarrow>
        e < length (level s) \<and> e < length (levelDelta s) \<and>
        e < length (pointStart s) \<and> e < length (pointEnd s) \<and>
        0 \<le> pointStart s ! e \<and> pointStart s ! e \<le> min (pointEnd s ! e) (int n))"

text \<open>The warnings of a run over the epochs \<open>es\<close>: one per epoch that is on and ends beyond the sweep.\<close>

definition short_warnings :: "Epochs \<Rightarrow> nat \<Rightarrow> nat list \<Rightarrow> pystr list" where
  "short_warnings s n es =
     map (\<lambda>_. warn_short) (filter (\<lambda>e. epoch_on s e \<and> int n < pointEnd s ! e) es)"

text \<open>
  Every row of the epoch table that belongs to channel \<open>c\<close> has an entry in each of the
  columns that \<open>_fillEpochsFromABF\<close> reads.
\<close>

definition rows_in_table :: "ABF \<Rightarrow> int \<Rightarrow> bool" where
  "rows_in_table a c \<longleftrightarrow>
     list_all (\<lambda>i. i < length (nEpochType (epochPerDacSection a)) \<and>
                    i < length (fEpochInitLevel (epochPerDacSection a)) \<and>
                    i < length (fEpochLevelInc (epochPerDacSection a)) \<and>
                    i < length (lEpochInitDuration (epochPerDacSection a)) \<and>
                    i < length (lEpochDurationInc (epochPerDacSection a)) \<and>
                    i < length (lEpochPulsePeriod (epochPerDacSection a)) \<and>
                    i < length (lEpochPulseWidth (epochPerDacSection a)))
       (real_rows a c)"

section \<open>Basic facts about the Python primitives\<close>

lemma ebind_Inr [simp]: "ebind (Inr x) f = f x"
  by (simp add: ebind_def)

lemma ebind_Inl [simp]: "ebind (Inl e) f = Inl e"
  by (simp add: ebind_def)

lemma ebind_eq_Inr: "ebind m f = Inr y \<longleftrightarrow> (\<exists>x. m = Inr x \<and> f x = Inr y)"
  by (cases m) simp_all

lemma py_get_last_iff: "py_get xs (- 1) = Inr v \<longleftrightarrow> xs \<noteq> [] \<and> v = last xs"
proof (cases xs rule: rev_cases)
  case Nil
  then show ?thesis by (simp add: py_get_def py_index_def)
next
  case (snoc ys y)
  then show ?thesis by (auto simp: py_get_def py_index_def nth_append)
qed

lemma py_get_nat_iff: "py_get xs (int i) = Inr v \<longleftrightarrow> i < length xs \<and> v = xs ! i"
  by (auto simp: py_get_def py_index_def)

lemma py_set_last_iff:
  "py_set xs (- 1) v = Inr ys \<longleftrightarrow> xs \<noteq> [] \<and> ys = xs[length xs - 1 := v]"
proof (cases xs rule: rev_cases)
  case Nil
  then show ?thesis by (simp add: py_set_def py_index_def)
next
  case (snoc zs z)
  then show ?thesis by (auto simp: py_set_def py_index_def)
qed

lemma py_set_0_iff: "py_set xs 0 v = Inr ys \<longleftrightarrow> xs \<noteq> [] \<and> ys = xs[0 := v]"
  by (cases xs) (auto simp: py_set_def py_index_def)

lemma attr_iff: "attr a = Inr v \<longleftrightarrow> a = Some v"
  by (cases a) (auto simp: attr_def)

section \<open>What each construction step returns\<close>

lemma fillEpoch_Inr:
  assumes "fillEpoch i s = Inr s'"
  shows "pointStart s \<noteq> [] \<and> duration s \<noteq> [] \<and>
    s' = s\<lparr>pointStart := pointStart s @ [last (pointStart s) + last (duration s)],
           type := type s @ [PInt (nEpochType (epochPerDacSection (abf s)) ! i)],
           level := level s @ [fEpochInitLevel (epochPerDacSection (abf s)) ! i],
           levelDelta := levelDelta s @ [fEpochLevelInc (epochPerDacSection (abf s)) ! i],
           duration := duration s @ [lEpochInitDuration (epochPerDacSection (abf s)) ! i],
           durationDelta := durationDelta s @ [lEpochDurationInc (epochPerDacSection (abf s)) ! i],
           pulsePeriod := pulsePeriod s @ [lEpochPulsePeriod (epochPerDacSection (abf s)) ! i],
           pulseWidth := pulseWidth s @ [lEpochPulseWidth (epochPerDacSection (abf s)) ! i],
           pointEnd := pointEnd s @ [last (pointStart s) + last (duration s)
                                       + lEpochInitDuration (epochPerDacSection (abf s)) ! i]\<rparr>"
  using assms
  by (auto simp: fillEpoch_def Let_def ebind_eq_Inr py_get_last_iff py_get_nat_iff)

lemma fillLoop_Inr:
  assumes "fillLoop rows s = Inr s'"
  shows "s' = s\<lparr>pointStart := pointStart s @ chain_starts (last (pointStart s) + last (duration s))
                 (map (\<lambda>i. lEpochInitDuration (epochPerDacSection (abf s)) ! i) (chan_rows (channel s) rows)),
           type := type s @ map (\<lambda>i. PInt (nEpochType (epochPerDacSection (abf s)) ! i)) (chan_rows (channel s) rows),
           level := level s @ map (\<lambda>i. fEpochInitLevel (epochPerDacSection (abf s)) ! i) (chan_rows (channel s) rows),
           levelDelta := levelDelta s @ map (\<lambda>i. fEpochLevelInc (epochPerDacSection (abf s)) ! i) (chan_rows (channel s) rows),
           duration := duration s @ map (\<lambda>i. lEpochInitDuration (epochPerDacSection (abf s)) ! i) (chan_rows (channel s) rows),
           durationDelta := durationDelta s @ map (\<lambda>i. lEpochDurationInc (epochPerDacSection (abf s)) ! i) (chan_rows (channel s) rows),
           pulsePeriod := pulsePeriod s @ map (\<lambda>i. lEpochPulsePeriod (epochPerDacSection (abf s)) ! i) (chan_rows (channel s) rows),
           pulseWidth := pulseWidth s @ map (\<lambda>i. lEpochPulseWidth (epochPerDacSection (abf s)) ! i) (chan_rows (channel s) rows),
           pointEnd := pointEnd s @ chain_ends (last (pointStart s) + last (duration s))
                 (map (\<lambda>i. lEpochInitDuration (epochPerDacSection (abf s)) ! i) (chan_rows (channel s) rows))\<rparr>"
  using assms
proof (induction rows arbitrary: s)
  case Nil
  then show ?case by (simp add: chan_rows_def)
next
  case (Cons r rows)
  obtain i dacNum where r: "r = (i, dacNum)" by (cases r)
  show ?case
  proof (cases "dacNum = channel s")
    case False
    with Cons r show ?thesis by (simp add: chan_rows_def)
  next
    case True
    with Cons.prems r obtain s1 where s1: "fillEpoch i s = Inr s1" and rest: "fillLoop rows s1 = Inr s'"
      by (auto simp: ebind_eq_Inr)
    note e = fillEpoch_Inr[OF s1]
    have "s' = s1\<lparr>pointStart := pointStart s1 @ chain_starts (last (pointStart s1) + last (duration s1))
                 (map (\<lambda>i. lEpochInitDuration (epochPerDacSection (abf s1)) ! i) (chan_rows (channel s1) rows)),
           type := type s1 @ map (\<lambda>i. PInt (nEpochType (epochPerDacSection (abf s1)) ! i)) (chan_rows (channel s1) rows),
           level := level s1 @ map (\<lambda>i. fEpochInitLevel (epochPerDacSection (abf s1)) ! i) (chan_rows (channel s1) rows),
           levelDelta := levelDelta s1 @ map (\<lambda>i. fEpochLevelInc (epochPerDacSection (abf s1)) ! i) (chan_rows (channel s1) rows),
           duration := duration s1 @ map (\<lambda>i. lEpochInitDuration (epochPerDacSection (abf s1)) ! i) (chan_rows (channel s1) rows),
           durationDelta := durationDelta s1 @ map (\<lambda>i. lEpochDurationInc (epochPerDacSection (abf s1)) ! i) (chan_rows (channel s1) rows),
           pulsePeriod := pulsePeriod s1 @ map (\<lambda>i. lEpochPulsePeriod (epochPerDacSection (abf s1)) ! i) (chan_rows (channel s1) rows),
           pulseWidth := pulseWidth s1 @ map (\<lambda>i. lEpochPulseWidth (epochPerDacSection (abf s1)) ! i) (chan_rows (channel s1) rows),
           pointEnd := pointEnd s1 @ chain_ends (last (pointStart s1) + last (duration s1))
                 (map (\<lambda>i. lEpochInitDuration (epochPerDacSection (abf s1)) ! i) (chan_rows (channel s1) rows))\<rparr>"
      by (rule Cons.IH[OF rest])
    moreover have "chan_rows (channel s) (r # rows) = i # chan_rows (channel s) rows"
      using True r by (simp add: chan_rows_def)
    ultimately show ?thesis
      using e by simp
  qed
qed

lemma pre_fill:
  assumes "addPreEpoch (initEpochVars a c) = Inr s1" and "fillEpochsFromABF s1 = Inr s2"
  shows "\<exists>h. py_get (holdingCommand a) c = Inr h \<and> s2 = filled a c h"
proof -
  from assms(1) obtain h where h: "py_get (holdingCommand a) c = Inr h"
    and s1: "s1 = \<lparr>abf = a, channel = c, pointStart = [0], pointEnd = [int_div64 (sweepPointCount a)],
       label = [], type = [PInt 1], level = [h], levelDelta = [0],
       duration = [int_div64 (sweepPointCount a)], durationDelta = [0], pulsePeriod = [0],
       pulseWidth = [0], digitalOutputs = [int_div64 (sweepPointCount a)],
       pointOffset = Some (int_div64 (sweepPointCount a)), epochCount = None,
       epochList = None, epochs_dacUnits = None\<rparr>"
    by (auto simp: addPreEpoch_def initEpochVars_def Let_def ebind_eq_Inr)
  from assms(2) have "fillLoop (enumerate_py (nDACNum (epochPerDacSection (abf s1)))) s1 = Inr s2"
    by (simp add: fillEpochsFromABF_def)
  from fillLoop_Inr[OF this] have "s2 = filled a c h"
    by (simp add: s1 filled_def real_rows_def real_durations_def Let_def)
  with h show ?thesis by blast
qed

lemma addPostEpoch_Inr:
  assumes "addPostEpoch s = Inr s'"
  shows "\<exists>flag off. py_get (nInterEpisodeLevel (dacSection (abf s))) (channel s) = Inr flag \<and>
     pointOffset s = Some off \<and> pointEnd s \<noteq> [] \<and>
     (if flag \<noteq> 0 then s' = s\<lparr>pointEnd := (pointEnd s)[length (pointEnd s) - 1 := sweepPointCount (abf s) - 1 + off]\<rparr>
      else level s \<noteq> [] \<and>
           s' = s\<lparr>pointStart := pointStart s @ [last (pointEnd s)],
                  pointEnd := pointEnd s @ [sweepPointCount (abf s) + off],
                  type := type s @ [PInt 1],
                  level := level s @ [last (level s)],
                  levelDelta := levelDelta s @ [0],
                  duration := duration s @ [0],
                  durationDelta := durationDelta s @ [0],
                  pulsePeriod := pulsePeriod s @ [0],
                  pulseWidth := pulseWidth s @ [0]\<rparr>)"
  using assms
  by (auto simp: addPostEpoch_def ebind_eq_Inr attr_iff py_get_last_iff py_set_last_iff
           split: if_splits)

lemma emap_chr_Inr: "emap (\<lambda>x. chr (int x + 64)) xs = Inr ys \<Longrightarrow> ys = map (\<lambda>x. [x + 64]) xs"
proof (induction xs arbitrary: ys)
  case Nil
  then show ?case by simp
next
  case (Cons x xs)
  then show ?case
    by (auto simp: ebind_eq_Inr chr_def nat_add_distrib split: if_splits)
qed

lemma createEpochLabels_Inr:
  assumes "createEpochLabels s = Inr s'"
  shows "type s \<noteq> [] \<and> duration s \<noteq> [] \<and>
         s' = s\<lparr>label := epoch_labels (length (type s)) (last (duration s))\<rparr>"
proof -
  from assms obtain l0 l1 d where l0: "emap (\<lambda>x. chr (int x + 64)) [0..<length (type s)] = Inr l0"
    and l1: "py_set l0 0 (str ''pre'') = Inr l1"
    and d: "py_get (duration s) (- 1) = Inr d"
    and r: "(if d = 0 then ebind (py_set l1 (- 1) (str ''post'')) (\<lambda>l2. Inr (s\<lparr>label := l2\<rparr>))
             else Inr (s\<lparr>label := l1\<rparr>)) = Inr s'"
    by (auto simp: createEpochLabels_def ebind_eq_Inr)
  from emap_chr_Inr[OF l0] have l0': "l0 = map (\<lambda>x. [x + 64]) [0..<length (type s)]" .
  from l1 have ne: "l0 \<noteq> []" and l1': "l1 = l0[0 := str ''pre'']"
    by (simp_all add: py_set_0_iff)
  from ne l0' have t: "type s \<noteq> []" by auto
  from d have dn: "duration s \<noteq> []" and d': "d = last (duration s)"
    by (simp_all add: py_get_last_iff)
  from r have "s' = s\<lparr>label := epoch_labels (length (type s)) (last (duration s))\<rparr>"
    by (auto simp: epoch_labels_def Let_def l1' l0' d' ebind_eq_Inr py_set_last_iff split: if_splits)
  with t dn show ?thesis by simp
qed

lemma updateEpochDetails_Inr:
  assumes "updateEpochDetails s = Inr s'"
  shows "\<exists>u. py_get (dacUnits (abf s)) (channel s) = Inr u \<and>
         s' = s\<lparr>epochCount := Some (length (type s)), epochList := Some [0..<length (type s)],
                epochs_dacUnits := Some u\<rparr>"
  using assms by (auto simp: updateEpochDetails_def ebind_eq_Inr)

lemma Epochs_init_v2_Inr:
  assumes "abfFileFormat a = 2" and "Epochs_init a c = Inr (w, tline)"
  shows "\<exists>h s3 u. py_get (holdingCommand a) c = Inr h \<and> addPostEpoch (filled a c h) = Inr s3 \<and>
           py_get (dacUnits a) c = Inr u \<and> w = [] \<and> type s3 \<noteq> [] \<and> duration s3 \<noteq> [] \<and>
           tline = s3\<lparr>label := epoch_labels (length (type s3)) (last (duration s3)),
                   epochCount := Some (length (type s3)), epochList := Some [0..<length (type s3)],
                   epochs_dacUnits := Some u\<rparr>"
proof -
  from assms obtain s1 s2 s3 s4 where s1: "addPreEpoch (initEpochVars a c) = Inr s1"
    and s2: "fillEpochsFromABF s1 = Inr s2" and s3: "addPostEpoch s2 = Inr s3"
    and s4: "createEpochLabels s3 = Inr s4" and s5: "updateEpochDetails s4 = Inr tline" and w: "w = []"
    by (auto simp: Epochs_init_def Let_def ebind_eq_Inr)
  from pre_fill[OF s1 s2] obtain h where h: "py_get (holdingCommand a) c = Inr h" and f: "s2 = filled a c h"
    by blast
  from addPostEpoch_Inr[OF s3] f have a3: "abf s3 = a" "channel s3 = c"
    by (auto simp: filled_def Let_def split: if_splits)
  note l = createEpochLabels_Inr[OF s4]
  from updateEpochDetails_Inr[OF s5] l a3 obtain u where u: "py_get (dacUnits a) c = Inr u"
    and tline: "tline = s4\<lparr>epochCount := Some (length (type s4)), epochList := Some [0..<length (type s4)],
                epochs_dacUnits := Some u\<rparr>"
    by auto
  show ?thesis
    using h s3 f u w l tline by auto
qed

lemma length_chain_starts [simp]: "length (chain_starts b ds) = length ds"
  by (induction ds arbitrary: b) simp_all

lemma length_chain_ends [simp]: "length (chain_ends b ds) = length ds"
  by (induction ds arbitrary: b) simp_all

lemma butlast_chain_ends: "butlast (b # chain_ends b ds) = chain_starts b ds"
  by (induction ds arbitrary: b) simp_all

lemma Epochs_init_v1_iff:
  assumes "abfFileFormat a = 1"
  shows "Epochs_init a c = Inr (w, t) \<longleftrightarrow>
    (\<exists>h u. py_get (holdingCommand a) c = Inr h \<and> py_get (dacUnits a) c = Inr u \<and>
       w = [warn_ABFv1] \<and>
       t = \<lparr>abf = a, channel = c, pointStart = [0], pointEnd = [sweepPointCount a],
            label = [if sweepPointCount a = 0 then str ''post'' else str ''pre''],
            type = [PInt 1], level = [h], levelDelta = [0], duration = [sweepPointCount a],
            durationDelta = [0], pulsePeriod = [0], pulseWidth = [0],
            digitalOutputs = [sweepPointCount a], pointOffset = None, epochCount = Some 1,
            epochList = Some [0], epochs_dacUnits = Some u\<rparr>)"
proof (cases "py_get (holdingCommand a) c")
  case (Inl e)
  with assms show ?thesis
    by (simp add: Epochs_init_def Let_def updateForABFv1_def initEpochVars_def)
next
  case h: (Inr h)
  show ?thesis
  proof (cases "py_get (dacUnits a) c")
    case (Inl e)
    with assms h show ?thesis
      by (auto simp: Epochs_init_def Let_def updateForABFv1_def initEpochVars_def
            createEpochLabels_def updateEpochDetails_def chr_def py_set_def py_get_def py_index_def str_def)
  next
    case (Inr u)
    with assms h show ?thesis
      by (auto simp: Epochs_init_def Let_def updateForABFv1_def initEpochVars_def
            createEpochLabels_def updateEpochDetails_def chr_def py_set_def py_get_def py_index_def str_def)
  qed
qed

lemma Epochs_init_other_format:
  assumes "abfFileFormat a \<noteq> 1" and "abfFileFormat a \<noteq> 2"
  shows "Epochs_init a c = Inl IndexError"
  using assms
  by (simp add: Epochs_init_def Let_def initEpochVars_def createEpochLabels_def py_set_def py_index_def)

lemma example_timeline_built: "Epochs_init (example_abf 2 128 0) 0 = Inr ([], example_timeline)"
  by code_simp

lemma example_sustained_built: "Epochs_init (example_abf 2 128 1) 0 = Inr ([], example_sustained)"
  by code_simp

lemma length_epoch_labels [simp]: "length (epoch_labels n d) = n"
  by (simp add: epoch_labels_def Let_def)

lemma Epochs_init_v2_fields:
  assumes "abfFileFormat a = 2" and "Epochs_init a c = Inr (w, t)"
  shows "\<exists>h flag u. py_get (holdingCommand a) c = Inr h \<and>
     py_get (nInterEpisodeLevel (dacSection a)) c = Inr flag \<and>
     py_get (dacUnits a) c = Inr u \<and> w = [] \<and> t = segmented_timeline a c h flag u"
proof -
  from Epochs_init_v2_Inr[OF assms] obtain h s3 u where
    h: "py_get (holdingCommand a) c = Inr h" and s3: "addPostEpoch (filled a c h) = Inr s3" and
    u: "py_get (dacUnits a) c = Inr u" and w: "w = []" and
    t: "t = s3\<lparr>label := epoch_labels (length (type s3)) (last (duration s3)),
                   epochCount := Some (length (type s3)), epochList := Some [0..<length (type s3)],
                   epochs_dacUnits := Some u\<rparr>"
    by blast
  have fa: "abf (filled a c h) = a" "channel (filled a c h) = c"
    "pointOffset (filled a c h) = Some (int_div64 (sweepPointCount a))"
    "length (type (filled a c h)) = Suc (length (real_rows a c))"
    "length (pointEnd (filled a c h)) = Suc (length (real_rows a c))"
    by (simp_all add: filled_def Let_def real_durations_def)
  from addPostEpoch_Inr[OF s3] obtain flag where
    flag: "py_get (nInterEpisodeLevel (dacSection a)) c = Inr flag" and
    c: "if flag \<noteq> 0 then s3 = (filled a c h)\<lparr>pointEnd := (pointEnd (filled a c h))
                          [length (real_rows a c) := sweepPointCount a - 1 + int_div64 (sweepPointCount a)]\<rparr>
      else s3 = (filled a c h)\<lparr>pointStart := pointStart (filled a c h) @ [last (pointEnd (filled a c h))],
                  pointEnd := pointEnd (filled a c h) @ [sweepPointCount a + int_div64 (sweepPointCount a)],
                  type := type (filled a c h) @ [PInt 1],
                  level := level (filled a c h) @ [last (level (filled a c h))],
                  levelDelta := levelDelta (filled a c h) @ [0],
                  duration := duration (filled a c h) @ [0],
                  durationDelta := durationDelta (filled a c h) @ [0],
                  pulsePeriod := pulsePeriod (filled a c h) @ [0],
                  pulseWidth := pulseWidth (filled a c h) @ [0]\<rparr>"
    by (auto simp: fa split: if_splits)
  show ?thesis
  proof (cases "flag = 0")
    case True
    with c t fa(4) have "t = segmented_timeline a c h flag u"
      by (simp add: segmented_timeline_def)
    with h flag u w show ?thesis by blast
  next
    case False
    with c t fa(4) have "t = segmented_timeline a c h flag u"
      by (simp add: segmented_timeline_def)
    with h flag u w show ?thesis by blast
  qed
qed


section \<open>The per-epoch lists have one length\<close>

text \<open>
  C10. After construction completes, whatever the format, the lists \<open>pointStart\<close>,
  \<open>pointEnd\<close>, \<open>type\<close>, \<open>level\<close>, \<open>levelDelta\<close>, \<open>duration\<close>, \<open>durationDelta\<close>,
  \<open>pulsePeriod\<close>, \<open>pulseWidth\<close> and \<open>label\<close> all have the length \<open>epochCount\<close>.
  (\<open>digitalOutputs\<close> is not among them: it always has one element.)
\<close>

theorem field_lists_same_length:
  assumes "Epochs_init a c = Inr (w, t)"
  shows "\<exists>n. epochCount t = Some n \<and> length (pointStart t) = n \<and> length (pointEnd t) = n \<and>
     length (type t) = n \<and> length (level t) = n \<and> length (levelDelta t) = n \<and>
     length (duration t) = n \<and> length (durationDelta t) = n \<and> length (pulsePeriod t) = n \<and>
     length (pulseWidth t) = n \<and> length (label t) = n \<and> length (digitalOutputs t) = 1"
proof -
  consider "abfFileFormat a = 1" | "abfFileFormat a = 2" | "abfFileFormat a \<noteq> 1" "abfFileFormat a \<noteq> 2"
    by blast
  then show ?thesis
  proof cases
    case 1
    with assms show ?thesis by (auto simp: Epochs_init_v1_iff)
  next
    case 2
    from Epochs_init_v2_fields[OF 2 assms] obtain h flag u where
      t: "t = segmented_timeline a c h flag u"
      by blast
    show ?thesis
      by (simp add: t segmented_timeline_def filled_def Let_def real_durations_def
            del: list_update.simps)
  next
    case 3
    with assms show ?thesis by (simp add: Epochs_init_other_format)
  qed
qed

theorem field_lists_same_length_witness:
  "Epochs_init (example_abf 2 128 0) 0 = Inr ([], example_timeline) \<and>
   (\<exists>n. epochCount example_timeline = Some n \<and> length (pointStart example_timeline) = n \<and>
     length (pointEnd example_timeline) = n \<and> length (type example_timeline) = n \<and>
     length (level example_timeline) = n \<and> length (levelDelta example_timeline) = n \<and>
     length (duration example_timeline) = n \<and> length (durationDelta example_timeline) = n \<and>
     length (pulsePeriod example_timeline) = n \<and> length (pulseWidth example_timeline) = n \<and>
     length (label example_timeline) = n \<and> length (digitalOutputs example_timeline) = 1)"
  using field_lists_same_length[OF example_timeline_built] example_timeline_built by simp

lemma list_update_last_Cons: "(b # xs)[length xs := v] = butlast (b # xs) @ [v]"
  by (induction xs arbitrary: b) simp_all

lemma nth_Cons_snoc: "i < Suc (length xs) \<Longrightarrow> (b # xs @ [y]) ! i = (b # xs) ! i"
  by (cases i) (simp_all add: nth_append)

lemma seg_pointStart:
  "pointStart (segmented_timeline a c h flag u) =
     (if flag \<noteq> 0 then 0 # chain_starts (int_div64 (sweepPointCount a)) (real_durations a c)
      else 0 # int_div64 (sweepPointCount a)
             # chain_ends (int_div64 (sweepPointCount a)) (real_durations a c))"
proof -
  have "chain_starts b ds @ [last (b # chain_ends b ds)] = b # chain_ends b ds" for b ds
    using append_butlast_last_id[of "b # chain_ends b ds"] by (simp only: butlast_chain_ends) simp
  then show ?thesis
    by (simp add: segmented_timeline_def filled_def Let_def del: list_update.simps last.simps)
qed

lemma seg_pointEnd:
  "pointEnd (segmented_timeline a c h flag u) =
     (if flag \<noteq> 0 then chain_starts (int_div64 (sweepPointCount a)) (real_durations a c)
                         @ [sweepPointCount a - 1 + int_div64 (sweepPointCount a)]
      else int_div64 (sweepPointCount a)
           # chain_ends (int_div64 (sweepPointCount a)) (real_durations a c)
           @ [sweepPointCount a + int_div64 (sweepPointCount a)])"
proof -
  have "(b # chain_ends b (real_durations a c))[length (real_rows a c) := v]
          = chain_starts b (real_durations a c) @ [v]" for b v
    using list_update_last_Cons[of b "chain_ends b (real_durations a c)" v]
    by (simp add: butlast_chain_ends real_durations_def del: list_update.simps butlast.simps)
  then show ?thesis
    by (simp add: segmented_timeline_def filled_def Let_def del: list_update.simps)
qed

section \<open>Contiguous epoch bounds\<close>

text \<open>
  C3. For every segmented-format input, the epochs of the constructed timeline are
  contiguous: each epoch but the last ends at the sample where the next one starts.
\<close>

theorem epoch_bounds_contiguous:
  assumes "abfFileFormat a = 2" and "Epochs_init a c = Inr (w, t)"
  shows "length (pointEnd t) = length (pointStart t) \<and>
         (\<forall>i. Suc i < length (pointStart t) \<longrightarrow> pointEnd t ! i = pointStart t ! Suc i)"
proof -
  from Epochs_init_v2_fields[OF assms] obtain h flag u where
    t: "t = segmented_timeline a c h flag u"
    by blast
  show ?thesis
    by (simp add: t seg_pointStart seg_pointEnd nth_append nth_Cons_snoc)
qed

theorem epoch_bounds_contiguous_witness:
  "abfFileFormat (example_abf 2 128 0) = 2 \<and>
   Epochs_init (example_abf 2 128 0) 0 = Inr ([], example_timeline) \<and>
   pointStart example_timeline = [0, 2, 12, 32] \<and> pointEnd example_timeline = [2, 12, 32, 130] \<and>
   length (pointEnd example_timeline) = length (pointStart example_timeline) \<and>
   pointEnd example_timeline ! 0 = pointStart example_timeline ! Suc 0 \<and>
   pointEnd example_timeline ! 1 = pointStart example_timeline ! Suc 1 \<and>
   pointEnd example_timeline ! 2 = pointStart example_timeline ! Suc 2"
proof -
  have f: "abfFileFormat (example_abf 2 128 0) = 2"
    by (simp add: example_abf_def)
  show ?thesis
    using epoch_bounds_contiguous[OF f example_timeline_built] f example_timeline_built
    by (simp add: example_timeline_def)
qed

section \<open>The legacy format\<close>

text \<open>
  C8. For every legacy-format header, whatever its other content, construction for a
  channel that has a holding command \<open>h\<close> and a unit \<open>u\<close> emits the compatibility warning
  and returns a timeline of exactly one Step epoch, from sample 0 to the sweep length, at
  level \<open>h\<close>, with all deltas zero. No pre-epoch offset is recorded and nothing is
  appended after the epoch.
\<close>

theorem legacy_single_epoch:
  assumes "abfFileFormat a = 1"
    and "py_get (holdingCommand a) c = Inr h" and "py_get (dacUnits a) c = Inr u"
  shows "Epochs_init a c =
     Inr ([warn_ABFv1],
          \<lparr>abf = a, channel = c, pointStart = [0], pointEnd = [sweepPointCount a],
            label = [if sweepPointCount a = 0 then str ''post'' else str ''pre''],
            type = [PInt 1], level = [h], levelDelta = [0], duration = [sweepPointCount a],
            durationDelta = [0], pulsePeriod = [0], pulseWidth = [0],
            digitalOutputs = [sweepPointCount a], pointOffset = None, epochCount = Some 1,
            epochList = Some [0], epochs_dacUnits = Some u\<rparr>)"
  using assms(2,3) by (simp add: Epochs_init_v1_iff[OF assms(1)])

theorem legacy_single_epoch_witness:
  "abfFileFormat (example_abf 1 128 0) = 1 \<and>
   py_get (holdingCommand (example_abf 1 128 0)) 0 = Inr 0 \<and>
   py_get (dacUnits (example_abf 1 128 0)) 0 = Inr (str ''pA'') \<and>
   Epochs_init (example_abf 1 128 0) 0 =
     Inr ([warn_ABFv1],
          \<lparr>abf = example_abf 1 128 0, channel = 0, pointStart = [0], pointEnd = [128],
            label = [str ''pre''],
            type = [PInt 1], level = [0], levelDelta = [0], duration = [128],
            durationDelta = [0], pulsePeriod = [0], pulseWidth = [0],
            digitalOutputs = [128], pointOffset = None, epochCount = Some 1,
            epochList = Some [0], epochs_dacUnits = Some (str ''pA'')\<rparr>)"
proof -
  have f: "abfFileFormat (example_abf 1 128 0) = 1"
    by (simp add: example_abf_def)
  have h: "py_get (holdingCommand (example_abf 1 128 0)) 0 = Inr 0"
    by (simp add: example_abf_def py_get_def py_index_def)
  have u: "py_get (dacUnits (example_abf 1 128 0)) 0 = Inr (str ''pA'')"
    by (simp add: example_abf_def py_get_def py_index_def)
  show ?thesis
    using legacy_single_epoch[OF f h u] f h u by (simp add: example_abf_def)
qed

section \<open>Post-epoch synthesis\<close>

lemma list_update_last_butlast: "xs \<noteq> [] \<Longrightarrow> xs[length xs - Suc 0 := v] = butlast xs @ [v]"
  by (cases xs rule: rev_cases) simp_all

text \<open>
  C5. For every segmented-format input, post-epoch synthesis branches on the sustain flag
  of the channel (\<open>nInterEpisodeLevel\<close>, true when non-zero). With \<open>s2\<close> the object after
  the pre-epoch and the real epochs and \<open>off\<close> the pre-epoch offset: when the flag is true
  no epoch is appended and only the last end bound becomes \<open>sweepPointCount - 1 + off\<close>;
  when it is false exactly one Step epoch of duration zero is appended, from the previous
  end to \<open>sweepPointCount + off\<close>, at the previous epoch's level and with level delta zero.
\<close>

theorem post_epoch_by_sustain_flag:
  assumes "abfFileFormat a = 2" and "Epochs_init a c = Inr (w, t)"
  shows "\<exists>s1 s2 flag.
     addPreEpoch (initEpochVars a c) = Inr s1 \<and> fillEpochsFromABF s1 = Inr s2 \<and>
     abf s2 = a \<and> pointOffset s2 = Some (int_div64 (sweepPointCount a)) \<and>
     py_get (nInterEpisodeLevel (dacSection a)) c = Inr flag \<and>
     (if flag \<noteq> 0 then sustain_extends_last (int_div64 (sweepPointCount a)) s2 t
      else post_epoch_appended (int_div64 (sweepPointCount a)) s2 t)"
proof -
  from assms obtain s1 s2 s3 s4 where s1: "addPreEpoch (initEpochVars a c) = Inr s1"
    and s2: "fillEpochsFromABF s1 = Inr s2" and s3: "addPostEpoch s2 = Inr s3"
    and s4: "createEpochLabels s3 = Inr s4" and s5: "updateEpochDetails s4 = Inr t"
    by (auto simp: Epochs_init_def Let_def ebind_eq_Inr)
  from pre_fill[OF s1 s2] obtain h where f: "s2 = filled a c h"
    by blast
  have fa: "abf s2 = a" "channel s2 = c" "pointOffset s2 = Some (int_div64 (sweepPointCount a))"
    by (simp_all add: f filled_def Let_def)
  from addPostEpoch_Inr[OF s3] fa obtain flag where
    flag: "py_get (nInterEpisodeLevel (dacSection a)) c = Inr flag" and ne: "pointEnd s2 \<noteq> []" and
    c: "if flag \<noteq> 0
        then s3 = s2\<lparr>pointEnd := (pointEnd s2)[length (pointEnd s2) - 1 :=
                       sweepPointCount a - 1 + int_div64 (sweepPointCount a)]\<rparr>
        else s3 = s2\<lparr>pointStart := pointStart s2 @ [last (pointEnd s2)],
                  pointEnd := pointEnd s2 @ [sweepPointCount a + int_div64 (sweepPointCount a)],
                  type := type s2 @ [PInt 1],
                  level := level s2 @ [last (level s2)],
                  levelDelta := levelDelta s2 @ [0],
                  duration := duration s2 @ [0],
                  durationDelta := durationDelta s2 @ [0],
                  pulsePeriod := pulsePeriod s2 @ [0],
                  pulseWidth := pulseWidth s2 @ [0]\<rparr>"
    by (auto split: if_splits)
  from createEpochLabels_Inr[OF s4] updateEpochDetails_Inr[OF s5] obtain u where
    t: "t = s3\<lparr>label := epoch_labels (length (type s3)) (last (duration s3)),
               epochCount := Some (length (type s3)), epochList := Some [0..<length (type s3)],
               epochs_dacUnits := Some u\<rparr>"
    by auto
  have "if flag \<noteq> 0 then sustain_extends_last (int_div64 (sweepPointCount a)) s2 t
        else post_epoch_appended (int_div64 (sweepPointCount a)) s2 t"
  proof (cases "flag = 0")
    case True
    with c t fa show ?thesis
      by (simp add: post_epoch_appended_def)
  next
    case False
    with c t fa ne show ?thesis
      by (simp add: sustain_extends_last_def list_update_last_butlast del: list_update.simps)
  qed
  with s1 s2 fa flag show ?thesis by blast
qed

theorem post_epoch_by_sustain_flag_witness:
  "(abfFileFormat (example_abf 2 128 0) = 2 \<and>
    Epochs_init (example_abf 2 128 0) 0 = Inr ([], example_timeline) \<and>
    (\<exists>s1 s2 flag.
     addPreEpoch (initEpochVars (example_abf 2 128 0) 0) = Inr s1 \<and> fillEpochsFromABF s1 = Inr s2 \<and>
     abf s2 = example_abf 2 128 0 \<and> pointOffset s2 = Some (int_div64 128) \<and>
     py_get (nInterEpisodeLevel (dacSection (example_abf 2 128 0))) 0 = Inr flag \<and> flag = 0 \<and>
     post_epoch_appended (int_div64 128) s2 example_timeline)) \<and>
   (abfFileFormat (example_abf 2 128 1) = 2 \<and>
    Epochs_init (example_abf 2 128 1) 0 = Inr ([], example_sustained) \<and>
    (\<exists>s1 s2 flag.
     addPreEpoch (initEpochVars (example_abf 2 128 1) 0) = Inr s1 \<and> fillEpochsFromABF s1 = Inr s2 \<and>
     abf s2 = example_abf 2 128 1 \<and> pointOffset s2 = Some (int_div64 128) \<and>
     py_get (nInterEpisodeLevel (dacSection (example_abf 2 128 1))) 0 = Inr flag \<and> flag \<noteq> 0 \<and>
     sustain_extends_last (int_div64 128) s2 example_sustained))"
proof -
  have f0: "abfFileFormat (example_abf 2 128 0) = 2" and f1: "abfFileFormat (example_abf 2 128 1) = 2"
    by (simp_all add: example_abf_def)
  have g0: "py_get (nInterEpisodeLevel (dacSection (example_abf 2 128 0))) 0 = Inr flag \<longleftrightarrow> flag = 0"
    and g1: "py_get (nInterEpisodeLevel (dacSection (example_abf 2 128 1))) 0 = Inr flag \<longleftrightarrow> flag = 1"
    for flag
    by (auto simp: example_abf_def py_get_def py_index_def)
  have n: "sweepPointCount (example_abf 2 128 0) = 128" "sweepPointCount (example_abf 2 128 1) = 128"
    by (simp_all add: example_abf_def)
  show ?thesis
    using post_epoch_by_sustain_flag[OF f0 example_timeline_built]
      post_epoch_by_sustain_flag[OF f1 example_sustained_built]
      f0 f1 example_timeline_built example_sustained_built
    by (auto simp: g0 g1 n)
qed

section \<open>The synthetic epochs\<close>

lemma seg_fields:
  "abf (segmented_timeline a c h flag u) = a"
  "channel (segmented_timeline a c h flag u) = c"
  "pointOffset (segmented_timeline a c h flag u) = Some (int_div64 (sweepPointCount a))"
  "epochCount (segmented_timeline a c h flag u)
     = Some (if flag \<noteq> 0 then Suc (length (real_rows a c)) else Suc (Suc (length (real_rows a c))))"
  "type (segmented_timeline a c h flag u)
     = PInt 1 # map (\<lambda>i. PInt (nEpochType (epochPerDacSection a) ! i)) (real_rows a c)
       @ (if flag \<noteq> 0 then [] else [PInt 1])"
  "level (segmented_timeline a c h flag u)
     = h # map (\<lambda>i. fEpochInitLevel (epochPerDacSection a) ! i) (real_rows a c)
       @ (if flag \<noteq> 0 then []
          else [last (h # map (\<lambda>i. fEpochInitLevel (epochPerDacSection a) ! i) (real_rows a c))])"
  "levelDelta (segmented_timeline a c h flag u)
     = 0 # map (\<lambda>i. fEpochLevelInc (epochPerDacSection a) ! i) (real_rows a c)
       @ (if flag \<noteq> 0 then [] else [0])"
  "duration (segmented_timeline a c h flag u)
     = int_div64 (sweepPointCount a) # real_durations a c @ (if flag \<noteq> 0 then [] else [0])"
  "durationDelta (segmented_timeline a c h flag u)
     = 0 # map (\<lambda>i. lEpochDurationInc (epochPerDacSection a) ! i) (real_rows a c)
       @ (if flag \<noteq> 0 then [] else [0])"
  "pulsePeriod (segmented_timeline a c h flag u)
     = 0 # map (\<lambda>i. lEpochPulsePeriod (epochPerDacSection a) ! i) (real_rows a c)
       @ (if flag \<noteq> 0 then [] else [0])"
  "pulseWidth (segmented_timeline a c h flag u)
     = 0 # map (\<lambda>i. lEpochPulseWidth (epochPerDacSection a) ! i) (real_rows a c)
       @ (if flag \<noteq> 0 then [] else [0])"
  by (simp_all add: segmented_timeline_def filled_def Let_def del: last.simps)

lemma nth_Cons_snoc_last: "length xs = m \<Longrightarrow> (b # xs @ [y]) ! Suc m = y"
  by (simp add: nth_append)

lemma nth_Cons_snoc_prev: "length xs = m \<Longrightarrow> (b # xs @ [y]) ! m = last (b # xs)"
  by (simp add: nth_Cons_snoc last_conv_nth del: last.simps)

lemma nth_snoc_length: "length xs = m \<Longrightarrow> (xs @ [y]) ! m = y"
  by auto

lemma nth_Cons_length_last: "length xs = m \<Longrightarrow> (b # xs) ! m = last (b # xs)"
  by (auto simp: last_conv_nth simp del: last.simps)

lemma seg_is_pre_epoch:
  assumes "py_get (holdingCommand a) c = Inr h"
  shows "is_pre_epoch (segmented_timeline a c h flag u) 0"
  using assms by (simp add: is_pre_epoch_def seg_fields seg_pointStart)

lemma seg_is_post_epoch:
  "is_post_epoch (segmented_timeline a c h 0 u) (Suc (length (real_rows a c)))"
proof -
  have m: "length (real_durations a c) = length (real_rows a c)"
    by (simp add: real_durations_def)
  show ?thesis
    unfolding is_post_epoch_def
    by (simp add: seg_fields seg_pointStart seg_pointEnd nth_Cons_snoc_last nth_Cons_snoc_prev
          nth_Cons_snoc nth_snoc_length nth_Cons_length_last m del: last.simps)
qed

lemma bare_sustained_built: "Epochs_init (bare_abf 2 128 1) 0 = Inr ([], bare_sustained 128)"
  by code_simp

text \<open>
  C6, as stated, fails: for a segmented header that declares no epoch for the channel and
  has the sustain flag set, the constructed timeline is the pre-epoch alone, so it holds
  no post-epoch.
\<close>

theorem pre_and_post_counterexample:
  "abfFileFormat (bare_abf 2 128 1) = 2 \<and>
   Epochs_init (bare_abf 2 128 1) 0 = Inr ([], bare_sustained 128) \<and>
   epochCount (bare_sustained 128) = Some 1 \<and>
   \<not> pre_and_post_present (bare_sustained 128)"
  using bare_sustained_built
  by (simp add: bare_abf_def bare_sustained_def pre_and_post_present_def)

text \<open>
  C6, amended. Every constructed timeline is non-empty. For a segmented header its first
  epoch is the synthetic pre-epoch; when the sustain flag is false it has at least two
  epochs and the last one is the synthetic post-epoch (also when no epoch is declared for
  the channel); when the sustain flag is true no post-epoch is synthesized: the timeline
  is the pre-epoch and the declared epochs only. A legacy timeline has exactly one epoch.
\<close>

theorem timeline_nonempty_pre_post:
  assumes "Epochs_init a c = Inr (w, t)"
  shows "type t \<noteq> [] \<and> epochCount t = Some (length (type t)) \<and>
     (abfFileFormat a = 1 \<longrightarrow> length (type t) = 1) \<and>
     (abfFileFormat a = 2 \<longrightarrow>
        is_pre_epoch t 0 \<and>
        (\<exists>flag. py_get (nInterEpisodeLevel (dacSection a)) c = Inr flag \<and>
           (if flag = 0 then pre_and_post_present t \<and> length (type t) = length (real_rows a c) + 2
            else length (type t) = length (real_rows a c) + 1)))"
proof -
  consider "abfFileFormat a = 1" | "abfFileFormat a = 2" | "abfFileFormat a \<noteq> 1" "abfFileFormat a \<noteq> 2"
    by blast
  then show ?thesis
  proof cases
    case 1
    with assms show ?thesis by (auto simp: Epochs_init_v1_iff)
  next
    case 2
    from Epochs_init_v2_fields[OF 2 assms] obtain h flag u where
      h: "py_get (holdingCommand a) c = Inr h" and
      flag: "py_get (nInterEpisodeLevel (dacSection a)) c = Inr flag" and
      t: "t = segmented_timeline a c h flag u"
      by blast
    have pre: "is_pre_epoch t 0"
      unfolding t by (rule seg_is_pre_epoch[OF h])
    have len: "length (type t) = (if flag = 0 then length (real_rows a c) + 2 else length (real_rows a c) + 1)"
      by (simp add: t seg_fields)
    have "pre_and_post_present t" if "flag = 0"
      using that pre len seg_is_post_epoch[of a c h u]
      by (simp add: pre_and_post_present_def t)
    with 2 pre len flag show ?thesis
      by (auto simp: t seg_fields)
  next
    case 3
    with assms show ?thesis by (simp add: Epochs_init_other_format)
  qed
qed

theorem timeline_nonempty_pre_post_witness:
  "(Epochs_init (example_abf 2 128 0) 0 = Inr ([], example_timeline) \<and>
    abfFileFormat (example_abf 2 128 0) = 2 \<and>
    py_get (nInterEpisodeLevel (dacSection (example_abf 2 128 0))) 0 = Inr 0 \<and>
    type example_timeline \<noteq> [] \<and> is_pre_epoch example_timeline 0 \<and>
    pre_and_post_present example_timeline \<and> length (type example_timeline) = 4) \<and>
   (Epochs_init (bare_abf 2 128 1) 0 = Inr ([], bare_sustained 128) \<and>
    abfFileFormat (bare_abf 2 128 1) = 2 \<and>
    py_get (nInterEpisodeLevel (dacSection (bare_abf 2 128 1))) 0 = Inr 1 \<and>
    type (bare_sustained 128) \<noteq> [] \<and> is_pre_epoch (bare_sustained 128) 0 \<and>
    length (type (bare_sustained 128)) = 1)"
proof -
  have f0: "abfFileFormat (example_abf 2 128 0) = 2" and f1: "abfFileFormat (bare_abf 2 128 1) = 2"
    by (simp_all add: example_abf_def bare_abf_def)
  have g0: "py_get (nInterEpisodeLevel (dacSection (example_abf 2 128 0))) 0 = Inr 0"
    and g1: "py_get (nInterEpisodeLevel (dacSection (bare_abf 2 128 1))) 0 = Inr 1"
    by (simp_all add: example_abf_def bare_abf_def py_get_def py_index_def)
  have e0: "type example_timeline \<noteq> [] \<and> is_pre_epoch example_timeline 0 \<and>
    pre_and_post_present example_timeline \<and> length (type example_timeline) = 4"
    by code_simp
  have e1: "type (bare_sustained 128) \<noteq> [] \<and> is_pre_epoch (bare_sustained 128) 0 \<and>
    length (type (bare_sustained 128)) = 1"
    by code_simp
  show ?thesis
    using timeline_nonempty_pre_post[OF example_timeline_built]
      timeline_nonempty_pre_post[OF bare_sustained_built]
      example_timeline_built bare_sustained_built f0 f1 g0 g1 e0 e1
    by simp
qed

section \<open>Epoch labels\<close>

lemma nth_epoch_labels:
  assumes "i < n"
  shows "epoch_labels n d ! i =
     (if Suc i = n \<and> d = 0 then str ''post'' else if i = 0 then str ''pre'' else [i + 64])"
  using assms by (auto simp: epoch_labels_def Let_def nth_list_update)

lemma distinct_epoch_labels: "distinct (epoch_labels n d)"
proof -
  have "epoch_labels n d ! i \<noteq> epoch_labels n d ! j" if "i < n" "j < n" "i \<noteq> j" for i j
    using that by (auto simp: nth_epoch_labels str_def)
  then show ?thesis
    by (simp add: distinct_conv_nth)
qed

lemma Epochs_init_label:
  assumes "Epochs_init a c = Inr (w, t)"
  shows "duration t \<noteq> [] \<and> label t = epoch_labels (length (duration t)) (last (duration t))"
proof -
  consider "abfFileFormat a = 1" | "abfFileFormat a = 2" | "abfFileFormat a \<noteq> 1" "abfFileFormat a \<noteq> 2"
    by blast
  then show ?thesis
  proof cases
    case 1
    with assms show ?thesis by (auto simp: Epochs_init_v1_iff epoch_labels_def)
  next
    case 2
    from Epochs_init_v2_fields[OF 2 assms] obtain h flag u where
      t: "t = segmented_timeline a c h flag u"
      by blast
    have m: "length (real_durations a c) = length (real_rows a c)"
      by (simp add: real_durations_def)
    have "label t = epoch_labels (length (duration t)) (last (duration t))"
      unfolding t seg_fields
      by (simp add: segmented_timeline_def filled_def Let_def m del: last.simps) simp
    then show ?thesis
      by (simp add: t seg_fields)
  next
    case 3
    with assms show ?thesis by (simp add: Epochs_init_other_format)
  qed
qed

lemma bare_short_built: "Epochs_init (bare_abf 2 10 1) 0 = Inr ([], bare_sustained 10)"
  by code_simp

text \<open>
  C9, as stated, fails: when the timeline has a single epoch whose base duration is zero,
  that epoch is relabelled \<open>"post"\<close> after it was labelled \<open>"pre"\<close>, so the first label
  is not \<open>"pre"\<close>. Here: sweeps of 10 samples (pre-epoch offset 0), no declared epoch,
  sustain flag set.
\<close>

theorem first_label_counterexample:
  "Epochs_init (bare_abf 2 10 1) 0 = Inr ([], bare_sustained 10) \<and>
   duration (bare_sustained 10) = [0] \<and>
   label (bare_sustained 10) = [str ''post''] \<and>
   label (bare_sustained 10) ! 0 \<noteq> str ''pre''"
  using bare_short_built
  by (simp add: bare_sustained_def int_div64_def str_def)

text \<open>
  C9, amended. In every constructed timeline there is one label per epoch and the labels
  are pairwise different. The first label is \<open>"pre"\<close>, unless the timeline is a single
  epoch of base duration zero, whose label is \<open>"post"\<close>. If the last epoch's base
  duration is zero, the last label is \<open>"post"\<close>. Every other epoch, at position \<open>i\<close>,
  has the one-character label of code point \<open>64 + i\<close>: \<open>"A"\<close> at position 1, \<open>"B"\<close>
  at position 2, and so on in construction order.
\<close>

theorem epoch_labels_derived:
  assumes "Epochs_init a c = Inr (w, t)"
  shows "length (label t) = length (duration t) \<and> label t \<noteq> [] \<and>
     label t ! 0 = (if length (label t) = 1 \<and> last (duration t) = 0 then str ''post''
                    else str ''pre'') \<and>
     (last (duration t) = 0 \<longrightarrow> last (label t) = str ''post'') \<and>
     (\<forall>i. 0 < i \<and> i < length (label t) \<and> \<not> (Suc i = length (label t) \<and> last (duration t) = 0)
          \<longrightarrow> label t ! i = [64 + i]) \<and>
     distinct (label t)"
proof -
  from Epochs_init_label[OF assms] have ne: "duration t \<noteq> []"
    and l: "label t = epoch_labels (length (duration t)) (last (duration t))"
    by simp_all
  from ne have pos: "0 < length (duration t)" by simp
  have len: "length (label t) = length (duration t)"
    by (simp add: l)
  have first: "label t ! 0 = (if length (label t) = 1 \<and> last (duration t) = 0 then str ''post''
                    else str ''pre'')"
    using pos by (subst l) (auto simp: nth_epoch_labels len)
  have lst: "last (label t) = str ''post''" if "last (duration t) = 0"
  proof -
    have "label t \<noteq> []"
      using ne len by auto
    then have "last (label t) = label t ! (length (duration t) - 1)"
      by (simp add: last_conv_nth len)
    also have "\<dots> = str ''post''"
      using pos that by (subst l) (simp add: nth_epoch_labels)
    finally show ?thesis .
  qed
  have mid: "label t ! i = [64 + i]"
    if "0 < i" "i < length (label t)" "\<not> (Suc i = length (label t) \<and> last (duration t) = 0)" for i
    using that by (subst l) (auto simp: nth_epoch_labels len)
  have "distinct (label t)"
    by (subst l) (rule distinct_epoch_labels)
  with len ne first lst mid show ?thesis
    by auto
qed

theorem epoch_labels_derived_witness:
  "Epochs_init (example_abf 2 128 0) 0 = Inr ([], example_timeline) \<and>
   label example_timeline = [str ''pre'', str ''A'', str ''B'', str ''post''] \<and>
   str ''A'' = [64 + 1] \<and> str ''B'' = [64 + 2] \<and>
   last (duration example_timeline) = 0 \<and>
   length (label example_timeline) = length (duration example_timeline) \<and>
   label example_timeline ! 0 = str ''pre'' \<and>
   last (label example_timeline) = str ''post'' \<and>
   label example_timeline ! 1 = [64 + 1] \<and> label example_timeline ! 2 = [64 + 2] \<and>
   distinct (label example_timeline)"
proof -
  have e: "label example_timeline = [str ''pre'', str ''A'', str ''B'', str ''post'']"
    "last (duration example_timeline) = 0" "length (label example_timeline) = 4"
    "str ''A'' = [64 + 1]" "str ''B'' = [64 + 2]"
    by (simp_all add: example_timeline_def str_def)
  show ?thesis
    using epoch_labels_derived[OF example_timeline_built] example_timeline_built e
    by simp
qed

section \<open>The bound invariant\<close>

lemma chain_bounds:
  assumes "0 \<le> b" and "list_all (\<lambda>d. 0 \<le> d) ds"
  shows "list_all2 (\<lambda>s e. 0 \<le> s \<and> s \<le> e) (chain_starts b ds) (chain_ends b ds)"
  using assms by (induction ds arbitrary: b) simp_all

lemma last_chain_ends: "last (b # chain_ends b ds) = b + sum_list ds"
  by (induction ds arbitrary: b) (simp_all add: add.assoc)

lemma int_div64_nonneg: "0 \<le> n \<Longrightarrow> 0 \<le> int_div64 n"
  by (simp add: int_div64_def)

lemma sum_list_nonneg_all: "list_all (\<lambda>d. 0 \<le> d) ds \<Longrightarrow> 0 \<le> sum_list (ds :: int list)"
  by (induction ds) simp_all

lemma list_all_butlast: "list_all P xs \<Longrightarrow> list_all P (butlast xs)"
  by (auto simp: list_all_iff dest: in_set_butlastD)

lemma nth_chain_starts_length:
  "(x # chain_starts b ds) ! length ds = (if ds = [] then x else b + sum_list (butlast ds))"
  by (induction ds arbitrary: x b) (simp_all add: add.assoc)

text \<open>
  For non-negative durations the bound invariant of a segmented timeline is exactly the
  fit condition of the branch taken: the sum of all durations against the sweep length when
  a post-epoch is appended, the sum of the durations before the last against the sweep
  length minus one when the last epoch is sustained.
\<close>

lemma seg_bounds_ok_iff:
  assumes d: "list_all (\<lambda>d. 0 \<le> d) (real_durations a c)" and n0: "0 \<le> sweepPointCount a"
  shows "epoch_bounds_ok (segmented_timeline a c h flag u) \<longleftrightarrow>
     (if flag \<noteq> 0 then sum_list (butlast (real_durations a c)) + 1 \<le> sweepPointCount a
      else sum_list (real_durations a c) \<le> sweepPointCount a)"
proof -
  define off where "off = int_div64 (sweepPointCount a)"
  define ds where "ds = real_durations a c"
  define P where "P = (\<lambda>s e :: int. 0 \<le> s \<and> s \<le> e)"
  have m: "length (real_rows a c) = length ds"
    by (simp add: ds_def real_durations_def)
  from d have s0: "0 \<le> sum_list ds"
    unfolding ds_def by (rule sum_list_nonneg_all)
  from d have b0: "0 \<le> sum_list (butlast ds)"
    unfolding ds_def by (intro sum_list_nonneg_all list_all_butlast)
  from n0 have o0: "0 \<le> off"
    unfolding off_def by (rule int_div64_nonneg)
  have oz: "off = 0" if "sweepPointCount a = 0"
    using that by (simp add: off_def int_div64_def)
  have ch: "list_all2 P (chain_starts off ds) (chain_ends off ds)"
    unfolding P_def ds_def using o0 d by (rule chain_bounds)
  then have all: "list_all2 P (0 # chain_starts off ds) (off # chain_ends off ds)"
    using o0 by (simp add: P_def)
  have le: "last (off # chain_ends off ds) = off + sum_list ds"
    by (rule last_chain_ends)
  show ?thesis
  proof (cases "flag = 0")
    case True
    have "epoch_bounds_ok (segmented_timeline a c h flag u) \<longleftrightarrow>
        list_all2 P ((0 # chain_starts off ds) @ [last (off # chain_ends off ds)])
                    ((off # chain_ends off ds) @ [sweepPointCount a + off])"
      using True unfolding epoch_bounds_ok_def P_def
      by (simp add: segmented_timeline_def filled_def Let_def off_def ds_def del: last.simps)
    also have "\<dots> \<longleftrightarrow> P (last (off # chain_ends off ds)) (sweepPointCount a + off)"
      using all by (simp add: list_all2_append del: last.simps list_all2_Cons)
    also have "\<dots> \<longleftrightarrow> P (off + sum_list ds) (sweepPointCount a + off)"
      by (simp only: le)
    also have "\<dots> \<longleftrightarrow> sum_list ds \<le> sweepPointCount a"
      using o0 s0 by (simp add: P_def)
    finally show ?thesis
      using True by (simp add: ds_def)
  next
    case False
    let ?S = "0 # chain_starts off ds" and ?E = "off # chain_ends off ds"
    let ?x = "sweepPointCount a - 1 + off"
    have lm: "length ds < length ?S" "length ds < length ?E" "length ?S = length ?E"
      by simp_all
    from all have Pm: "P (?S ! length ds) (?E ! length ds)"
      using lm by (simp add: list_all2_conv_all_nth del: nth_Cons_Suc)
    then have Sm0: "0 \<le> ?S ! length ds"
      by (simp add: P_def)
    have Sm: "?S ! length ds = (if ds = [] then 0 else off + sum_list (butlast ds))"
      by (rule nth_chain_starts_length)
    have "epoch_bounds_ok (segmented_timeline a c h flag u) \<longleftrightarrow>
        list_all2 P ?S (?E[length ds := ?x])"
      using False unfolding epoch_bounds_ok_def P_def
      by (simp add: segmented_timeline_def filled_def Let_def off_def m
            del: list_update.simps) (simp add: ds_def)
    also have "\<dots> \<longleftrightarrow> P (?S ! length ds) ?x"
    proof
      assume "list_all2 P ?S (?E[length ds := ?x])"
      then have "P (?S ! length ds) ((?E[length ds := ?x]) ! length ds)"
        using lm(1) by (rule list_all2_nthD)
      moreover have "(?E[length ds := ?x]) ! length ds = ?x"
        using lm(2) by (rule nth_list_update_eq)
      ultimately show "P (?S ! length ds) ?x"
        by (simp only:)
    next
      assume "P (?S ! length ds) ?x"
      with all have "list_all2 P (?S[length ds := ?S ! length ds]) (?E[length ds := ?x])"
        by (rule list_all2_update_cong)
      then show "list_all2 P ?S (?E[length ds := ?x])"
        by (simp only: list_update_id)
    qed
    also have "\<dots> \<longleftrightarrow> ?S ! length ds \<le> ?x"
      using Sm0 by (simp add: P_def)
    also have "\<dots> \<longleftrightarrow> sum_list (butlast ds) + 1 \<le> sweepPointCount a"
    proof (cases "ds = []")
      case True
      show ?thesis
      proof (cases "sweepPointCount a = 0")
        case z: True
        with True oz show ?thesis by (simp add: Sm)
      next
        case False
        with n0 o0 True show ?thesis by (simp add: Sm)
      qed
    next
      case False
      then show ?thesis by (auto simp: Sm)
    qed
    finally show ?thesis
      using False by (simp add: ds_def)
  qed
qed

lemma overlong_built: "Epochs_init overlong_abf 0 = Inr ([], overlong_timeline)"
  by code_simp

lemma truncated_sustained_built:
  "Epochs_init truncated_sustained_abf 0 = Inr ([], truncated_sustained)"
  by code_simp

lemma full_sustained_built: "Epochs_init full_sustained_abf 0 = Inr ([], full_sustained)"
  by code_simp

text \<open>
  C7, as stated, fails: with non-negative header durations that outlast the sweep, the
  post-epoch is built from the previous end to \<open>sweepPointCount + _pointOffset\<close>, here
  from sample 201 to sample 101. With the sustain flag set the last declared epoch is
  made to end at \<open>sweepPointCount - 1 + _pointOffset\<close>: when the epochs before it already
  outlast the sweep it runs backwards too, here from sample 151 to sample 100.
\<close>

theorem bound_invariant_counterexample:
  "Epochs_init overlong_abf 0 = Inr ([], overlong_timeline) \<and>
   list_all (\<lambda>d. 0 \<le> d) (real_durations overlong_abf 0) \<and>
   pointStart overlong_timeline ! 2 = 201 \<and> pointEnd overlong_timeline ! 2 = 101 \<and>
   \<not> epoch_bounds_ok overlong_timeline \<and>
   Epochs_init truncated_sustained_abf 0 = Inr ([], truncated_sustained) \<and>
   list_all (\<lambda>d. 0 \<le> d) (real_durations truncated_sustained_abf 0) \<and>
   pointStart truncated_sustained ! 3 = 151 \<and> pointEnd truncated_sustained ! 3 = 100 \<and>
   \<not> epoch_bounds_ok truncated_sustained"
proof -
  have "list_all (\<lambda>d. 0 \<le> d) (real_durations overlong_abf 0)"
    and "list_all (\<lambda>d. 0 \<le> d) (real_durations truncated_sustained_abf 0)"
    by code_simp+
  moreover have "\<not> epoch_bounds_ok overlong_timeline"
    and "\<not> epoch_bounds_ok truncated_sustained"
    by (simp_all add: epoch_bounds_ok_def overlong_timeline_def truncated_sustained_def)
  ultimately show ?thesis
    using overlong_built truncated_sustained_built
    by (simp add: overlong_timeline_def truncated_sustained_def)
qed

text \<open>
  C7, amended. In every constructed timeline of a header with a non-negative sweep length,
  every epoch has \<open>0 \<le> startSample \<le> endSample\<close>, provided that, for the segmented
  format, the base durations of the channel's declared epochs are non-negative and fit
  the sweep: when the sustain flag is clear they sum to at most the sweep length; when it
  is set the durations of the declared epochs before the last sum to at most the sweep
  length minus one (the duration of the last one is free, and with no declared epoch the
  sweep has at least one sample).
\<close>

theorem epoch_bounds_ordered:
  assumes "Epochs_init a c = Inr (w, t)" and "0 \<le> sweepPointCount a"
    and "abfFileFormat a = 2 \<longrightarrow> epochs_fit_sweep a c"
  shows "epoch_bounds_ok t"
proof -
  consider "abfFileFormat a = 1" | "abfFileFormat a = 2" | "abfFileFormat a \<noteq> 1" "abfFileFormat a \<noteq> 2"
    by blast
  then show ?thesis
  proof cases
    case 1
    with assms(1,2) show ?thesis by (auto simp: Epochs_init_v1_iff epoch_bounds_ok_def)
  next
    case 2
    from Epochs_init_v2_fields[OF 2 assms(1)] obtain h flag u where
      flag: "py_get (nInterEpisodeLevel (dacSection a)) c = Inr flag" and
      t: "t = segmented_timeline a c h flag u"
      by blast
    from assms(3) 2 flag have d: "list_all (\<lambda>d. 0 \<le> d) (real_durations a c)"
      and "if flag \<noteq> 0 then sum_list (butlast (real_durations a c)) + 1 \<le> sweepPointCount a
           else sum_list (real_durations a c) \<le> sweepPointCount a"
      by (simp_all add: epochs_fit_sweep_def)
    then show ?thesis
      unfolding t by (simp only: seg_bounds_ok_iff[OF d assms(2)])
  next
    case 3
    with assms(1) show ?thesis by (simp add: Epochs_init_other_format)
  qed
qed

theorem epoch_bounds_ordered_witness:
  "Epochs_init full_sustained_abf 0 = Inr ([], full_sustained) \<and>
   0 \<le> sweepPointCount full_sustained_abf \<and>
   abfFileFormat full_sustained_abf = 2 \<and> epochs_fit_sweep full_sustained_abf 0 \<and>
   real_durations full_sustained_abf 0 = [128] \<and> sweepPointCount full_sustained_abf = 128 \<and>
   pointStart full_sustained = [0, 2] \<and> pointEnd full_sustained = [2, 129] \<and>
   epoch_bounds_ok full_sustained \<and>
   Epochs_init (example_abf 2 128 0) 0 = Inr ([], example_timeline) \<and>
   epochs_fit_sweep (example_abf 2 128 0) 0 \<and> epoch_bounds_ok example_timeline"
proof -
  have n: "0 \<le> sweepPointCount full_sustained_abf" "sweepPointCount full_sustained_abf = 128"
    and f: "abfFileFormat full_sustained_abf = 2"
    and n': "0 \<le> sweepPointCount (example_abf 2 128 0)"
    by (simp_all add: full_sustained_abf_def full_abf_def example_abf_def)
  have fit: "epochs_fit_sweep full_sustained_abf 0" "epochs_fit_sweep (example_abf 2 128 0) 0"
    "real_durations full_sustained_abf 0 = [128]"
    by code_simp+
  then have i: "abfFileFormat full_sustained_abf = 2 \<longrightarrow> epochs_fit_sweep full_sustained_abf 0"
    and i': "abfFileFormat (example_abf 2 128 0) = 2 \<longrightarrow> epochs_fit_sweep (example_abf 2 128 0) 0"
    by simp_all
  from epoch_bounds_ordered[OF full_sustained_built n(1) i]
    epoch_bounds_ordered[OF example_timeline_built n' i']
  show ?thesis
    using full_sustained_built example_timeline_built n f fit
    by (simp add: full_sustained_def)
qed

section \<open>The synthesizer on epochs beyond the sweep\<close>

lemma truncated_built: "Epochs_init truncated_abf 0 = Inr ([], truncated_timeline)"
  by code_simp

text \<open>
  C1 fails on the code. The timeline of \<open>truncated_abf\<close> has the epoch C from sample 151
  to sample 251, beyond the 100 samples of the sweep. The epoch B before it, which only
  ends beyond the sweep, is clamped with a warning; for C the end is clamped to 100, the
  chunk length \<open>100 - 151\<close> is negative, and \<open>np.empty\<close> raises ValueError: no array
  is returned.
\<close>

theorem stimulusWaveform_raises:
  "Epochs_init truncated_abf 0 = Inr ([], truncated_timeline) \<and>
   pointStart truncated_timeline ! 3 = 151 \<and> pointEnd truncated_timeline ! 3 = 251 \<and>
   stimulusWaveform truncated_prefix 0
     = Inr ([warn_short], replicate 1 0 @ replicate 50 10 @ replicate 49 20) \<and>
   stimulusWaveform truncated_timeline 0 = Inl ValueError"
proof -
  have "pointStart truncated_timeline ! 3 = 151 \<and> pointEnd truncated_timeline ! 3 = 251"
    by (simp add: truncated_timeline_def)
  moreover have "stimulusWaveform truncated_prefix 0
     = Inr ([warn_short], replicate 1 0 @ replicate 50 10 @ replicate 49 20)"
    by code_simp
  moreover have "stimulusWaveform truncated_timeline 0 = Inl ValueError"
    by code_simp
  ultimately show ?thesis
    using truncated_built by simp
qed

lemma full_built: "Epochs_init full_abf 0 = Inr ([], full_timeline)"
  by code_simp

text \<open>
  C2 fails on the code, through the same defect. The timeline of \<open>full_abf\<close> meets
  the bound invariant and is contiguous, with the post-epoch from sample 130 to sample
  130. Its end is clamped to 128, the chunk length \<open>128 - 130\<close> is negative, and the
  synthesizer raises ValueError at every sweep number instead of returning the array of
  128 samples that holds 0 at samples 0 and 1 and 10 from sample 2 on.
\<close>

theorem stimulusWaveform_no_array:
  "Epochs_init full_abf 0 = Inr ([], full_timeline) \<and>
   epoch_bounds_ok full_timeline \<and>
   stimulusWaveform full_timeline 0 = Inl ValueError \<and>
   stimulusWaveform full_timeline 3 = Inl ValueError"
proof -
  have "epoch_bounds_ok full_timeline"
    by code_simp
  moreover have "stimulusWaveform full_timeline 0 = Inl ValueError"
    by code_simp
  moreover have "stimulusWaveform full_timeline 3 = Inl ValueError"
    by code_simp
  ultimately show ?thesis
    using full_built by simp
qed

section \<open>The text block changes the timeline\<close>

lemma txtFmt_other_label:
  "lbl \<noteq> str ''Type'' \<Longrightarrow> txtFmt lbl vals = ([], vals, Inr (txtLine lbl vals))"
  by (simp add: txtFmt_def)

lemma text_block_frame: "fst (snd (text_block s)) = s\<lparr>type := fst (snd (txtFmt (str ''Type'') (type s)))\<rparr>"
  by (simp add: text_block_def Let_def split: prod.splits)

text \<open>
  C4 fails on the code. \<open>_txtFmt\<close> writes the type names into the list it is given, and
  \<open>text\<close> gives it \<open>self.type\<close>: after one call the type list of \<open>example_timeline\<close>
  holds the strings Step, Off, Ramp, Step. No string equals 0, so the synthesizer no
  longer skips the Off epoch (samples 2 to 11, level 5): the waveform differs from the
  one before the call. A second call of \<open>text\<close> raises TypeError.
\<close>

theorem text_changes_waveform:
  "Epochs_init (example_abf 2 128 0) 0 = Inr ([], example_timeline) \<and>
   type example_timeline = [PInt 1, PInt 0, PInt 2, PInt 1] \<and>
   fst (snd (text_block example_timeline)) = example_formatted \<and>
   type example_formatted
     = [PStr (str ''Step''), PStr (str ''Off''), PStr (str ''Ramp''), PStr (str ''Step'')] \<and>
   stimulusWaveform example_timeline 0
     = Inr ([warn_short], replicate 12 0 @ replicate 116 (- 70)) \<and>
   stimulusWaveform example_formatted 0
     = Inr ([warn_short], replicate 2 0 @ replicate 10 5 @ replicate 116 (- 70)) \<and>
   snd (snd (text_block example_formatted)) = Inl TypeError"
proof -
  have "type example_timeline = [PInt 1, PInt 0, PInt 2, PInt 1]"
    and "type example_formatted
     = [PStr (str ''Step''), PStr (str ''Off''), PStr (str ''Ramp''), PStr (str ''Step'')]"
    by (simp_all add: example_timeline_def example_formatted_def)
  moreover have "fst (snd (text_block example_timeline)) = example_formatted"
    by code_simp
  moreover have "stimulusWaveform example_timeline 0
     = Inr ([warn_short], replicate 12 0 @ replicate 116 (- 70))"
    by code_simp
  moreover have "stimulusWaveform example_formatted 0
     = Inr ([warn_short], replicate 2 0 @ replicate 10 5 @ replicate 116 (- 70))"
    by code_simp
  moreover have "snd (snd (text_block example_formatted)) = Inl TypeError"
    by code_simp
  ultimately show ?thesis
    using example_timeline_built by simp
qed

section \<open>What the synthesizer returns when every epoch can be written\<close>

lemma py_get_nat: "e < length xs \<Longrightarrow> py_get xs (int e) = Inr (xs ! e)"
  by (simp add: py_get_nat_iff)

lemma nth_fill_range:
  assumes "a \<le> b" and "b \<le> length xs" and "j < length xs"
  shows "(take a xs @ replicate (b - a) v @ drop b xs) ! j = (if a \<le> j \<and> j < b then v else xs ! j)"
  using assms by (auto simp: nth_append min_def)

lemma stimulusEpoch_off:
  assumes "e < length (type s)" and "\<not> epoch_on s e"
  shows "stimulusEpoch s k e (w, arr) = Inr (w, arr)"
  using assms by (simp add: stimulusEpoch_def py_get_nat epoch_on_def)

lemma stimulusEpoch_on:
  assumes "fillable s (length arr) e" and "epoch_on s e"
  shows "stimulusEpoch s k e (w, arr) =
     Inr (w @ (if int (length arr) < pointEnd s ! e then [warn_short] else []),
          take (nat (pointStart s ! e)) arr
          @ replicate (nat (min (pointEnd s ! e) (int (length arr))) - nat (pointStart s ! e))
              (epoch_level s k e)
          @ drop (nat (min (pointEnd s ! e) (int (length arr)))) arr)"
proof -
  define i1 where "i1 = pointStart s ! e"
  define i2 where "i2 = min (pointEnd s ! e) (int (length arr))"
  from assms have r: "e < length (type s)" "e < length (level s)" "e < length (levelDelta s)"
    "e < length (pointStart s)" "e < length (pointEnd s)"
    and b: "0 \<le> i1" "i1 \<le> i2"
    by (simp_all add: fillable_def i1_def i2_def)
  have i2n: "i2 \<le> int (length arr)"
    by (simp add: i2_def)
  have cl: "(if int (length arr) < pointEnd s ! e then int (length arr) else pointEnd s ! e) = i2"
    by (simp add: i2_def min_def)
  have full: "np_full (i2 - i1) v = Inr (replicate (nat (i2 - i1)) v)" for v
    using b by (simp add: np_full_def)
  have idx: "slice_index (int (length arr)) i1 = i1" "slice_index (int (length arr)) i2 = i2"
    using b i2n by (simp_all add: slice_index_def)
  have m: "nat i2 - nat i1 = nat (i2 - i1)" "nat i1 + nat (i2 - i1) = nat i2"
    using b by simp_all
  have sl: "slice_assign arr i1 i2 (replicate (nat (i2 - i1)) v)
      = Inr (take (nat i1) arr @ replicate (nat i2 - nat i1) v @ drop (nat i2) arr)" for v
    by (simp add: slice_assign_def Let_def idx m)
  from assms(2) have on: "\<not> py_eq_int (type s ! e) 0"
    by (simp add: epoch_on_def)
  show ?thesis
    unfolding i1_def[symmetric] i2_def[symmetric]
    by (simp add: stimulusEpoch_def py_get_nat r on Let_def cl full sl
          i1_def[symmetric] epoch_level_def)
qed

lemma stimulusLoop_correct:
  assumes "\<forall>e\<in>set es. fillable s (length arr) e"
  shows "\<exists>res. stimulusLoop s k es (w, arr) = Inr (w @ short_warnings s (length arr) es, res) \<and>
           length res = length arr \<and>
           (\<forall>j<length arr. res ! j = sample_value s k (length arr) es (arr ! j) j)"
  using assms
proof (induction es arbitrary: w arr)
  case Nil
  then show ?case by (simp add: short_warnings_def sample_value_def)
next
  case (Cons e es)
  let ?n = "length arr"
  from Cons.prems have fe: "fillable s ?n e" and fes: "\<forall>x\<in>set es. fillable s ?n x"
    by simp_all
  define w1 where "w1 = w @ (if epoch_on s e \<and> int ?n < pointEnd s ! e then [warn_short] else [])"
  define a where "a = nat (pointStart s ! e)"
  define b where "b = nat (min (pointEnd s ! e) (int ?n))"
  define arr1 where "arr1 = (if epoch_on s e
      then take a arr @ replicate (b - a) (epoch_level s k e) @ drop b arr else arr)"
  have step: "stimulusEpoch s k e (w, arr) = Inr (w1, arr1)"
  proof (cases "epoch_on s e")
    case True
    with stimulusEpoch_on[OF fe True] show ?thesis
      by (simp add: w1_def arr1_def a_def b_def)
  next
    case False
    with fe stimulusEpoch_off[of e s k w arr] show ?thesis
      by (simp add: w1_def arr1_def fillable_def)
  qed
  have ab: "a \<le> b" "b \<le> ?n" if "epoch_on s e"
    using fe that by (simp_all add: fillable_def a_def b_def nat_mono)
  have len1: "length arr1 = ?n"
    using ab by (auto simp: arr1_def)
  have cov: "covers s ?n e j \<longleftrightarrow> epoch_on s e \<and> a \<le> j \<and> j < b" for j
    using fe by (auto simp: covers_def fillable_def a_def b_def)
  have nth1: "arr1 ! j = (if covers s ?n e j then epoch_level s k e else arr ! j)" if "j < ?n" for j
  proof (cases "epoch_on s e")
    case True
    with ab that show ?thesis
      by (simp add: arr1_def cov nth_fill_range)
  next
    case False
    then show ?thesis
      by (simp add: arr1_def cov)
  qed
  from fes have "\<forall>x\<in>set es. fillable s (length arr1) x"
    by (simp add: len1)
  from Cons.IH[OF this, of w1] obtain res where
    loop: "stimulusLoop s k es (w1, arr1) = Inr (w1 @ short_warnings s ?n es, res)"
    and lres: "length res = ?n"
    and vals: "\<forall>j<?n. res ! j = sample_value s k ?n es (arr1 ! j) j"
    by (auto simp: len1)
  have w: "w1 @ short_warnings s ?n es = w @ short_warnings s ?n (e # es)"
    by (simp add: w1_def short_warnings_def)
  have "res ! j = sample_value s k ?n (e # es) (arr ! j) j" if "j < ?n" for j
    using vals that nth1[OF that]
    by (simp add: sample_value_def split: list.splits)
  with loop lres show ?case
    by (simp add: step w)
qed

text \<open>
  For a timeline whose channel has holding level \<open>h\<close>, whose sweep length is not
  negative and whose epochs can all be written, the synthesizer returns an array of the
  sweep length in which every sample holds the level, at the given sweep number, of the
  last epoch that is on and covers it, and \<open>h\<close> where no such epoch does; it warns once
  per clamped epoch.
\<close>

lemma stimulusWaveform_correct:
  assumes "py_get (holdingCommand (abf s)) (channel s) = Inr h"
    and "sweepPointCount (abf s) = int n" and "epochList s = Some es"
    and "\<forall>e\<in>set es. fillable s n e"
  shows "\<exists>res. stimulusWaveform s k = Inr (short_warnings s n es, res) \<and> length res = n \<and>
           (\<forall>j<n. res ! j = sample_value s k n es h j)"
proof -
  from assms(4) have "\<forall>e\<in>set es. fillable s (length (replicate n h)) e"
    by simp
  from stimulusLoop_correct[OF this, of k "[]"] show ?thesis
    using assms(1-3) by (simp add: stimulusWaveform_def np_full_def attr_def)
qed

lemma stimulusEpoch_raises:
  assumes "e < length (type s)" and "e < length (level s)" and "e < length (levelDelta s)"
    and "e < length (pointStart s)" and "e < length (pointEnd s)"
    and "epoch_on s e" and "min (pointEnd s ! e) (int (length arr)) < pointStart s ! e"
  shows "stimulusEpoch s k e (w, arr) = Inl ValueError"
  using assms
  by (simp add: stimulusEpoch_def py_get_nat epoch_on_def Let_def np_full_def min_def
        split: if_splits)

section \<open>Construction returns a timeline for a well-formed header\<close>

lemma fillLoop_returns:
  assumes "pointStart s \<noteq> []" and "duration s \<noteq> []"
    and "list_all (\<lambda>i. i < length (nEpochType (epochPerDacSection (abf s))) \<and>
                    i < length (fEpochInitLevel (epochPerDacSection (abf s))) \<and>
                    i < length (fEpochLevelInc (epochPerDacSection (abf s))) \<and>
                    i < length (lEpochInitDuration (epochPerDacSection (abf s))) \<and>
                    i < length (lEpochDurationInc (epochPerDacSection (abf s))) \<and>
                    i < length (lEpochPulsePeriod (epochPerDacSection (abf s))) \<and>
                    i < length (lEpochPulseWidth (epochPerDacSection (abf s))))
           (chan_rows (channel s) rows)"
  shows "\<exists>s'. fillLoop rows s = Inr s'"
  using assms
proof (induction rows arbitrary: s)
  case Nil
  then show ?case by simp
next
  case (Cons r rows)
  obtain i dacNum where r: "r = (i, dacNum)" by (cases r)
  show ?case
  proof (cases "dacNum = channel s")
    case False
    with Cons r show ?thesis by (simp add: chan_rows_def)
  next
    case True
    with r have cr: "chan_rows (channel s) (r # rows) = i # chan_rows (channel s) rows"
      by (simp add: chan_rows_def)
    from Cons.prems(1,2) have l: "py_get (pointStart s) (- 1) = Inr (last (pointStart s))"
      "py_get (duration s) (- 1) = Inr (last (duration s))"
      by (simp_all add: py_get_last_iff)
    from Cons.prems(3) cr obtain s1 where s1: "fillEpoch i s = Inr s1"
      by (simp add: fillEpoch_def Let_def l py_get_nat)
    from fillEpoch_Inr[OF s1] have k: "pointStart s1 \<noteq> []" "duration s1 \<noteq> []"
      "abf s1 = abf s" "channel s1 = channel s"
      by auto
    from Cons.prems(3) cr have "\<exists>s'. fillLoop rows s1 = Inr s'"
      by (intro Cons.IH k(1,2)) (simp add: k)
    with True r s1 show ?thesis by simp
  qed
qed

lemma emap_chr_returns:
  assumes "\<forall>x\<in>set xs. x + 64 \<le> 1114111"
  shows "emap (\<lambda>x. chr (int x + 64)) xs = Inr (map (\<lambda>x. [x + 64]) xs)"
  using assms by (induction xs) (simp_all add: chr_def nat_add_distrib)

lemma createEpochLabels_returns:
  assumes "type s \<noteq> []" and "duration s \<noteq> []" and "length (type s) + 63 \<le> 1114111"
  shows "\<exists>s'. createEpochLabels s = Inr s'"
proof -
  have "emap (\<lambda>x. chr (int x + 64)) [0..<length (type s)]
          = Inr (map (\<lambda>x. [x + 64]) [0..<length (type s)])"
    using assms(3) by (intro emap_chr_returns) auto
  moreover have "py_get (duration s) (- 1) = Inr (last (duration s))"
    using assms(2) by (simp add: py_get_last_iff)
  moreover from assms(1) have "Suc 0 \<le> length (type s)"
    by (cases "type s") simp_all
  ultimately show ?thesis
    by (auto simp: createEpochLabels_def py_set_def py_index_def simp del: upt_Suc)
qed

text \<open>
  For a segmented header in which the channel has a holding level, a sustain flag and a
  unit, and whose rows for the channel lie within the columns of the epoch table (and
  number at most a million), construction returns the timeline \<open>segmented_timeline\<close>
  without any warning.
\<close>

lemma Epochs_init_v2_returns:
  assumes "abfFileFormat a = 2" and "py_get (holdingCommand a) c = Inr h"
    and "py_get (nInterEpisodeLevel (dacSection a)) c = Inr flag"
    and "py_get (dacUnits a) c = Inr u"
    and "rows_in_table a c" and "length (real_rows a c) \<le> 1000000"
  shows "Epochs_init a c = Inr ([], segmented_timeline a c h flag u)"
proof -
  define s1 where "s1 = \<lparr>abf = a, channel = c, pointStart = [0], pointEnd = [int_div64 (sweepPointCount a)],
       label = [], type = [PInt 1], level = [h], levelDelta = [0],
       duration = [int_div64 (sweepPointCount a)], durationDelta = [0], pulsePeriod = [0],
       pulseWidth = [0], digitalOutputs = [int_div64 (sweepPointCount a)],
       pointOffset = Some (int_div64 (sweepPointCount a)), epochCount = None,
       epochList = None, epochs_dacUnits = None\<rparr>"
  have p1: "addPreEpoch (initEpochVars a c) = Inr s1"
    using assms(2) by (simp add: addPreEpoch_def initEpochVars_def Let_def s1_def)
  have "\<exists>s'. fillLoop (enumerate_py (nDACNum (epochPerDacSection (abf s1)))) s1 = Inr s'"
    using assms(5)
    by (intro fillLoop_returns) (simp_all add: s1_def rows_in_table_def real_rows_def)
  then obtain s2 where p2: "fillEpochsFromABF s1 = Inr s2"
    by (auto simp: fillEpochsFromABF_def)
  from pre_fill[OF p1 p2] assms(2) have f: "s2 = filled a c h"
    by simp
  have fa: "abf s2 = a" "channel s2 = c" "pointOffset s2 = Some (int_div64 (sweepPointCount a))"
    "pointEnd s2 \<noteq> []" "level s2 \<noteq> []" "length (type s2) = Suc (length (real_rows a c))"
    "duration s2 \<noteq> []"
    by (simp_all add: f filled_def Let_def)
  obtain s3 where p3: "addPostEpoch s2 = Inr s3"
    using assms(3) fa
    by (cases "flag = 0")
       (simp_all add: addPostEpoch_def attr_def py_get_last_iff[THEN iffD2]
          py_set_last_iff[THEN iffD2])
  from addPostEpoch_Inr[OF p3] fa assms(6) have t3: "type s3 \<noteq> []" "duration s3 \<noteq> []"
    "length (type s3) + 63 \<le> 1114111" "abf s3 = a" "channel s3 = c"
    by (auto split: if_splits)
  from createEpochLabels_returns[OF t3(1-3)] obtain s4 where p4: "createEpochLabels s3 = Inr s4"
    by blast
  from createEpochLabels_Inr[OF p4] t3 have a4: "abf s4 = a" "channel s4 = c"
    by simp_all
  obtain t where p5: "updateEpochDetails s4 = Inr t"
    using assms(4) by (simp add: updateEpochDetails_def a4)
  have "Epochs_init a c = Inr ([], t)"
    using assms(1) p1 p2 p3 p4 p5 by (simp add: Epochs_init_def Let_def)
  moreover from Epochs_init_v2_fields[OF assms(1) this] assms(2-4)
  have "t = segmented_timeline a c h flag u"
    by simp
  ultimately show ?thesis by simp
qed

end
